theory Spec2Isabelle
  imports Complex_Main "HOL-Library.Multiset"
begin

section \<open>ColorAllocator.ts: data model\<close>

text \<open>
  The embedding follows \<^verbatim>\<open>src/core/configuration/ColorAllocator.ts\<close>.
  A \<^verbatim>\<open>Colord\<close> value is an element of the type parameter \<open>'c\<close>; a slot that
  JavaScript may leave \<^verbatim>\<open>undefined\<close> has type \<open>'c option\<close>, with \<open>None\<close> for
  \<^verbatim>\<open>undefined\<close>. Indices are JavaScript numbers holding integers, hence \<open>int\<close>.
  A \<^verbatim>\<open>throw\<close> is a value of type \<open>error\<close>; an operation of the class returns its
  outcome together with the allocator as the call leaves it.
\<close>

datatype error =
    IndexOutOfBounds int nat
      \<comment> \<open>\<^verbatim>\<open>Error(`Index: ${x} out of bounds for array of length: ${array.length}`)\<close>\<close>
  | NoAssignedColors
      \<comment> \<open>\<^verbatim>\<open>Error("No assigned colors")\<close>\<close>
  | TypeError
      \<comment> \<open>a method call on \<^verbatim>\<open>undefined\<close>\<close>

text \<open>Reading \<^verbatim>\<open>array[i]\<close>: \<^verbatim>\<open>undefined\<close> outside the array.\<close>

definition js_index :: "'a list \<Rightarrow> int \<Rightarrow> 'a option" where
  "js_index array i =
     (if 0 \<le> i \<and> i < int (length array) then Some (array ! nat i) else None)"

text \<open>
  The fields of the class. The type \<open>'arr\<close> is how an array field is held: as the
  array's contents, a list, in the operations of the next sections, and as the address
  of an array in a store where the sharing of arrays between objects matters.
\<close>

record ('arr, 'c) ColorAllocatorOf =
  availableColors :: 'arr
  fallbackColors :: 'arr
  assigned :: "string \<rightharpoonup> 'c option"
  teamPlayerColors :: "string \<rightharpoonup> 'c option"
  sampleWOReplace :: int

type_synonym 'c ColorAllocator = "('c list, 'c) ColorAllocatorOf"

text \<open>The constructor (lines 28-32): both palettes are copied, the tables start empty.\<close>

definition constructor :: "'c list \<Rightarrow> 'c list \<Rightarrow> 'c ColorAllocator" where
  "constructor colors fallback =
     \<lparr> availableColors = colors,
       fallbackColors = fallback,
       assigned = Map.empty,
       teamPlayerColors = Map.empty,
       sampleWOReplace = 0 \<rparr>"

subsection \<open>swap (lines 123-135)\<close>

text \<open>
  The result pairs the outcome with the array after the call: both checks come before
  the first assignment, so a throw leaves the array as it was.
\<close>

definition swap :: "'a list \<Rightarrow> int \<Rightarrow> int \<Rightarrow> (error + unit) \<times> 'a list" where
  "swap array x y =
     (if x \<ge> int (length array) \<or> x < 0 then
        (Inl (IndexOutOfBounds x (length array)), array)
      else if y \<ge> int (length array) \<or> y < 0 then
        (Inl (IndexOutOfBounds y (length array)), array)
      else
        let temp = array ! nat x;
            array1 = array[nat x := array ! nat y];
            array2 = array1[nat y := temp]
        in (Inr (), array2))"

subsection \<open>External collaborators\<close>

text \<open>
  \<^verbatim>\<open>Util.simpleHash\<close>, \<^verbatim>\<open>PseudoRandom\<close>, the \<^verbatim>\<open>colord\<close> library, \<^verbatim>\<open>ColoredTeams\<close>
  and the tables of \<^verbatim>\<open>Colors.ts\<close> are imported by the file and are not part of it.
  Every operation below takes the ones it uses as arguments:
  \<^item> \<open>simpleHash :: string \<Rightarrow> nat\<close>, a string's hash, which the specification has
    map "an arbitrary string to a non-negative integer";
  \<^item> \<open>nextInt seed lo hi\<close>, the first draw \<^verbatim>\<open>new PseudoRandom(seed).nextInt(lo, hi)\<close>
    of a generator made from \<open>seed\<close>;
  \<^item> \<open>toRgb\<close> and \<open>colord\<close>, the conversions between a color and its channels;
  \<^item> a record of the ten \<^verbatim>\<open>ColoredTeams\<close> names and a record of the eight tables.
\<close>

type_synonym Team = string

record ColoredTeams =
  Blue :: Team
  Red :: Team
  Teal :: Team
  Purple :: Team
  Yellow :: Team
  Orange :: Team
  Green :: Team
  Bot :: Team
  Humans :: Team
  Nations :: Team

record 'c Colors =
  blueTeamColors :: "'c list"
  botTeamColors :: "'c list"
  greenTeamColors :: "'c list"
  orangeTeamColors :: "'c list"
  purpleTeamColors :: "'c list"
  redTeamColors :: "'c list"
  tealTeamColors :: "'c list"
  yellowTeamColors :: "'c list"

text \<open>
  The object \<^verbatim>\<open>{r, g, b, a}\<close> that \<^verbatim>\<open>toRgb()\<close> returns; the fields are named in full
  because one-letter constants would capture the variables of every later statement.
\<close>

record RgbaColor =
  rgb_r :: real
  rgb_g :: real
  rgb_b :: real
  rgb_a :: real

text \<open>\<^verbatim>\<open>Math.round\<close>: the nearest integer, a half rounded towards plus infinity.\<close>

definition Math_round :: "real \<Rightarrow> real" where
  "Math_round x = of_int \<lfloor>x + 1 / 2\<rfloor>"

text \<open>
  Modelled from the spec: \<^verbatim>\<open>PseudoRandom.nextInt\<close> is not part of the file; the
  specification has it produce "integers in a caller-specified half-open range
  \<open>[lo, hi)\<close>", which is this condition for a range that is not empty.
\<close>

definition nextInt_in_range :: "(nat \<Rightarrow> int \<Rightarrow> int \<Rightarrow> int) \<Rightarrow> bool" where
  "nextInt_in_range nextInt =
     (\<forall>seed lo hi. lo < hi \<longrightarrow> lo \<le> nextInt seed lo hi \<and> nextInt seed lo hi < hi)"

subsection \<open>assignColor (lines 89-115)\<close>

definition assignColor ::
  "(string \<Rightarrow> nat) \<Rightarrow> (nat \<Rightarrow> int \<Rightarrow> int \<Rightarrow> int) \<Rightarrow> string \<Rightarrow> 'c ColorAllocator
     \<Rightarrow> (error + 'c option) \<times> 'c ColorAllocator" where
  "assignColor simpleHash nextInt ident this =
     (case assigned this ident of
        Some color \<Rightarrow> (Inr color, this)
      | None \<Rightarrow>
          let this1 =
                (if sampleWOReplace this = int (length (availableColors this)) then
                   this\<lparr> availableColors := fallbackColors this, sampleWOReplace := 0 \<rparr>
                 else this);
              randIndex =
                nextInt (simpleHash ident) 0
                  (int (length (availableColors this1)) - sampleWOReplace this1);
              color = js_index (availableColors this1) randIndex;
              this2 = this1\<lparr> sampleWOReplace := sampleWOReplace this1 + 1 \<rparr>
          in
            (case swap (availableColors this2) randIndex
                    (int (length (availableColors this2)) - sampleWOReplace this2) of
               (Inl e, array) \<Rightarrow> (Inl e, this2\<lparr> availableColors := array \<rparr>)
             | (Inr _, array) \<Rightarrow>
                 (Inr color,
                  this2\<lparr> availableColors := array,
                         assigned := (assigned this2)(ident \<mapsto> color) \<rparr>)))"

text \<open>A caller making one call after another, keeping each outcome.\<close>

fun assignColors ::
  "(string \<Rightarrow> nat) \<Rightarrow> (nat \<Rightarrow> int \<Rightarrow> int \<Rightarrow> int) \<Rightarrow> string list \<Rightarrow> 'c ColorAllocator
     \<Rightarrow> (error + 'c option) list \<times> 'c ColorAllocator" where
  "assignColors simpleHash nextInt [] this = ([], this)"
| "assignColors simpleHash nextInt (ident # idents) this =
     (case assignColor simpleHash nextInt ident this of
        (r, this1) \<Rightarrow>
          (case assignColors simpleHash nextInt idents this1 of
             (rs, this2) \<Rightarrow> (r # rs, this2)))"

subsection \<open>getTeamColorVariations (lines 34-59)\<close>

text \<open>
  The switch compares \<open>team\<close> with the ten names in the order of the source; the default
  arm calls \<open>assignColor\<close> and so can change the allocator or throw.
\<close>

definition getTeamColorVariations ::
  "(string \<Rightarrow> nat) \<Rightarrow> (nat \<Rightarrow> int \<Rightarrow> int \<Rightarrow> int) \<Rightarrow> ColoredTeams \<Rightarrow> 'c Colors \<Rightarrow> Team
     \<Rightarrow> 'c ColorAllocator \<Rightarrow> (error + 'c option list) \<times> 'c ColorAllocator" where
  "getTeamColorVariations simpleHash nextInt teams tables team this =
     (if team = Blue teams then (Inr (map Some (blueTeamColors tables)), this)
      else if team = Red teams then (Inr (map Some (redTeamColors tables)), this)
      else if team = Teal teams then (Inr (map Some (tealTeamColors tables)), this)
      else if team = Purple teams then (Inr (map Some (purpleTeamColors tables)), this)
      else if team = Yellow teams then (Inr (map Some (yellowTeamColors tables)), this)
      else if team = Orange teams then (Inr (map Some (orangeTeamColors tables)), this)
      else if team = Green teams then (Inr (map Some (greenTeamColors tables)), this)
      else if team = Bot teams then (Inr (map Some (botTeamColors tables)), this)
      else if team = Humans teams then (Inr (map Some (blueTeamColors tables)), this)
      else if team = Nations teams then (Inr (map Some (redTeamColors tables)), this)
      else
        (case assignColor simpleHash nextInt team this of
           (Inl e, this1) \<Rightarrow> (Inl e, this1)
         | (Inr color, this1) \<Rightarrow> (Inr [color], this1)))"

subsection \<open>assignTeamColor (lines 137-144)\<close>

text \<open>
  \<^verbatim>\<open>teamColors[0].toRgb()\<close> is a method call on \<^verbatim>\<open>undefined\<close> when the list is empty.
\<close>

definition assignTeamColor ::
  "(string \<Rightarrow> nat) \<Rightarrow> (nat \<Rightarrow> int \<Rightarrow> int \<Rightarrow> int) \<Rightarrow> ('c \<Rightarrow> RgbaColor) \<Rightarrow> (RgbaColor \<Rightarrow> 'c)
     \<Rightarrow> ColoredTeams \<Rightarrow> 'c Colors \<Rightarrow> Team \<Rightarrow> 'c ColorAllocator
     \<Rightarrow> (error + 'c) \<times> 'c ColorAllocator" where
  "assignTeamColor simpleHash nextInt toRgb colord teams tables team this =
     (case getTeamColorVariations simpleHash nextInt teams tables team this of
        (Inl e, this1) \<Rightarrow> (Inl e, this1)
      | (Inr teamColors, this1) \<Rightarrow>
          (case js_index teamColors 0 of
             Some (Some first) \<Rightarrow>
               let rgb = toRgb first;
                   rgb1 = rgb\<lparr> rgb_r := Math_round (rgb_r rgb) \<rparr>;
                   rgb2 = rgb1\<lparr> rgb_g := Math_round (rgb_g rgb1) \<rparr>;
                   rgb3 = rgb2\<lparr> rgb_b := Math_round (rgb_b rgb2) \<rparr>
               in (Inr (colord rgb3), this1)
           | _ \<Rightarrow> (Inl TypeError, this1)))"

subsection \<open>assignTeamPlayerColor (lines 146-159)\<close>

text \<open>
  \<^verbatim>\<open>hashValue % teamColors.length\<close> is \<^verbatim>\<open>NaN\<close> for an empty list, and
  \<^verbatim>\<open>teamColors[NaN]\<close> is \<^verbatim>\<open>undefined\<close>.
\<close>

definition assignTeamPlayerColor ::
  "(string \<Rightarrow> nat) \<Rightarrow> (nat \<Rightarrow> int \<Rightarrow> int \<Rightarrow> int) \<Rightarrow> ColoredTeams \<Rightarrow> 'c Colors \<Rightarrow> Team \<Rightarrow> string
     \<Rightarrow> 'c ColorAllocator \<Rightarrow> (error + 'c option) \<times> 'c ColorAllocator" where
  "assignTeamPlayerColor simpleHash nextInt teams tables team playerId this =
     (case teamPlayerColors this playerId of
        Some color \<Rightarrow> (Inr color, this)
      | None \<Rightarrow>
          (case getTeamColorVariations simpleHash nextInt teams tables team this of
             (Inl e, this1) \<Rightarrow> (Inl e, this1)
           | (Inr teamColors, this1) \<Rightarrow>
               let hashValue = simpleHash playerId;
                   color =
                     (if length teamColors = 0 then None
                      else
                        (case js_index teamColors (int (hashValue mod length teamColors)) of
                           Some c \<Rightarrow> c
                         | None \<Rightarrow> None))
               in (Inr color,
                   this1\<lparr> teamPlayerColors := (teamPlayerColors this1)(playerId \<mapsto> color) \<rparr>)))"

text \<open>The calls a client can make on an allocator, and a run of them.\<close>

datatype call =
    AssignColor string
  | AssignTeamColor Team
  | AssignTeamPlayerColor Team string

definition perform ::
  "(string \<Rightarrow> nat) \<Rightarrow> (nat \<Rightarrow> int \<Rightarrow> int \<Rightarrow> int) \<Rightarrow> ('c \<Rightarrow> RgbaColor) \<Rightarrow> (RgbaColor \<Rightarrow> 'c)
     \<Rightarrow> ColoredTeams \<Rightarrow> 'c Colors \<Rightarrow> call \<Rightarrow> 'c ColorAllocator \<Rightarrow> 'c ColorAllocator" where
  "perform simpleHash nextInt toRgb colord teams tables c this =
     (case c of
        AssignColor ident \<Rightarrow> snd (assignColor simpleHash nextInt ident this)
      | AssignTeamColor team \<Rightarrow>
          snd (assignTeamColor simpleHash nextInt toRgb colord teams tables team this)
      | AssignTeamPlayerColor team playerId \<Rightarrow>
          snd (assignTeamPlayerColor simpleHash nextInt teams tables team playerId this))"

definition performAll ::
  "(string \<Rightarrow> nat) \<Rightarrow> (nat \<Rightarrow> int \<Rightarrow> int \<Rightarrow> int) \<Rightarrow> ('c \<Rightarrow> RgbaColor) \<Rightarrow> (RgbaColor \<Rightarrow> 'c)
     \<Rightarrow> ColoredTeams \<Rightarrow> 'c Colors \<Rightarrow> call list \<Rightarrow> 'c ColorAllocator \<Rightarrow> 'c ColorAllocator" where
  "performAll simpleHash nextInt toRgb colord teams tables calls this =
     foldl (\<lambda>s c. perform simpleHash nextInt toRgb colord teams tables c s) this calls"

section \<open>selectDistinctColorIndex (lines 164-201)\<close>

text \<open>
  \<^verbatim>\<open>toColor\<close> (the conversion to a Lab color of \<^verbatim>\<open>colorjs.io\<close>) and \<^verbatim>\<open>deltaE2000\<close>
  (that library's \<^verbatim>\<open>deltaE(_, "2000")\<close>) are arguments; a distance is a real number.
  The numbers \<open>minDeltaE\<close> handles are the reals and \<^verbatim>\<open>Infinity\<close>, where its
  \<^verbatim>\<open>reduce\<close> starts.
\<close>

datatype number = Infinity | Num real

fun Math_min :: "number \<Rightarrow> number \<Rightarrow> number" where
  "Math_min Infinity y = y"
| "Math_min x Infinity = x"
| "Math_min (Num x) (Num y) = Num (min x y)"

text \<open>The comparison \<^verbatim>\<open>x > y\<close>.\<close>

fun greater :: "number \<Rightarrow> number \<Rightarrow> bool" where
  "greater Infinity Infinity = False"
| "greater Infinity (Num y) = True"
| "greater (Num x) Infinity = False"
| "greater (Num x) (Num y) = (x > y)"

definition minDeltaE :: "('lab \<Rightarrow> 'lab \<Rightarrow> real) \<Rightarrow> 'lab \<Rightarrow> 'lab list \<Rightarrow> number" where
  "minDeltaE deltaE2000 lab1 assignedLabColors =
     foldl (\<lambda>min' assigned'. Math_min min' (Num (deltaE2000 lab1 assigned')))
       Infinity assignedLabColors"

text \<open>The \<^verbatim>\<open>for\<close> loop of lines 177-184, from index \<open>i\<close> on.\<close>

function selectLoop ::
  "('c \<Rightarrow> 'lab) \<Rightarrow> ('lab \<Rightarrow> 'lab \<Rightarrow> real) \<Rightarrow> 'c list \<Rightarrow> 'lab list \<Rightarrow> nat \<Rightarrow> number \<Rightarrow> nat
     \<Rightarrow> nat" where
  "selectLoop toColor deltaE2000 availableColors' assignedLabColors i maxDeltaE maxIndex =
     (if i < length availableColors' then
        let color = availableColors' ! i;
            deltaE = minDeltaE deltaE2000 (toColor color) assignedLabColors
        in if greater deltaE maxDeltaE then
             selectLoop toColor deltaE2000 availableColors' assignedLabColors (i + 1) deltaE i
           else
             selectLoop toColor deltaE2000 availableColors' assignedLabColors (i + 1)
               maxDeltaE maxIndex
      else maxIndex)"
  by pat_completeness auto
termination
  by (relation "measure (\<lambda>(_, _, cs, _, i, _, _). length cs - i)") auto

declare selectLoop.simps [simp del]

text \<open>
  The declared result is \<^verbatim>\<open>number | null\<close>: \<open>None\<close> is \<^verbatim>\<open>null\<close>.
\<close>

definition selectDistinctColorIndex ::
  "('c \<Rightarrow> 'lab) \<Rightarrow> ('lab \<Rightarrow> 'lab \<Rightarrow> real) \<Rightarrow> 'c list \<Rightarrow> 'c list \<Rightarrow> error + nat option" where
  "selectDistinctColorIndex toColor deltaE2000 availableColors' assignedColors =
     (if length assignedColors = 0 then Inl NoAssignedColors
      else
        let assignedLabColors = map toColor assignedColors
        in Inr (Some (selectLoop toColor deltaE2000 availableColors' assignedLabColors
                        0 (Num 0) 0)))"

text \<open>
  The specification's measure of a candidate, in its words "the distance to the closest
  existing color": the least distance from the candidate to an assigned color, for a
  non-empty list of them. It is what the result of the loop is compared with.
\<close>

definition closestDistance ::
  "('c \<Rightarrow> 'lab) \<Rightarrow> ('lab \<Rightarrow> 'lab \<Rightarrow> real) \<Rightarrow> 'c list \<Rightarrow> 'c \<Rightarrow> real" where
  "closestDistance toColor deltaE2000 assignedColors candidate =
     Min ((\<lambda>a. deltaE2000 (toColor candidate) (toColor a)) ` set assignedColors)"

section \<open>Allocators in a store of arrays\<close>

text \<open>
  An array is an object: two fields can hold the same array, and a change through one
  is seen through the other. The store lists the arrays of the program, an address is a
  position in it, and a new array (a spread \<^verbatim>\<open>[...xs]\<close>) is added at the end.
\<close>

type_synonym addr = nat
type_synonym 'c store = "'c list list"
type_synonym 'c ColorAllocatorRef = "(addr, 'c) ColorAllocatorOf"

text \<open>The constructor: each palette is copied into a new array.\<close>

definition constructor_in ::
  "'c store \<Rightarrow> addr \<Rightarrow> addr \<Rightarrow> 'c store \<times> 'c ColorAllocatorRef" where
  "constructor_in store colors fallback =
     (let store1 = store @ [store ! colors];
          store2 = store1 @ [store1 ! fallback]
      in (store2,
          \<lparr> availableColors = length store,
            fallbackColors = length store1,
            assigned = Map.empty,
            teamPlayerColors = Map.empty,
            sampleWOReplace = 0 \<rparr>))"

text \<open>swap writes into the array it is given.\<close>

definition swap_in :: "'a store \<Rightarrow> addr \<Rightarrow> int \<Rightarrow> int \<Rightarrow> (error + unit) \<times> 'a store" where
  "swap_in store array x y =
     (case swap (store ! array) x y of (r, contents) \<Rightarrow> (r, store[array := contents]))"

text \<open>
  assignColor: the reset of lines 94-97 points the field at a new copy of the fallback
  array; the swap of lines 107-111 writes into the array the field points at.
\<close>

definition assignColor_in ::
  "(string \<Rightarrow> nat) \<Rightarrow> (nat \<Rightarrow> int \<Rightarrow> int \<Rightarrow> int) \<Rightarrow> string \<Rightarrow> 'c store \<Rightarrow> 'c ColorAllocatorRef
     \<Rightarrow> (error + 'c option) \<times> 'c store \<times> 'c ColorAllocatorRef" where
  "assignColor_in simpleHash nextInt ident store this =
     (case assigned this ident of
        Some color \<Rightarrow> (Inr color, store, this)
      | None \<Rightarrow>
          let (store1, this1) =
                (if sampleWOReplace this = int (length (store ! availableColors this)) then
                   (store @ [store ! fallbackColors this],
                    this\<lparr> availableColors := length store, sampleWOReplace := 0 \<rparr>)
                 else (store, this));
              randIndex =
                nextInt (simpleHash ident) 0
                  (int (length (store1 ! availableColors this1)) - sampleWOReplace this1);
              color = js_index (store1 ! availableColors this1) randIndex;
              this2 = this1\<lparr> sampleWOReplace := sampleWOReplace this1 + 1 \<rparr>
          in
            (case swap_in store1 (availableColors this2) randIndex
                    (int (length (store1 ! availableColors this2)) - sampleWOReplace this2) of
               (Inl e, store2) \<Rightarrow> (Inl e, store2, this2)
             | (Inr _, store2) \<Rightarrow>
                 (Inr color, store2,
                  this2\<lparr> assigned := (assigned this2)(ident \<mapsto> color) \<rparr>)))"

text \<open>Two allocators in one store, and calls on the one or the other in any order.\<close>

datatype allocator = First | Second

fun assignColors_in ::
  "(string \<Rightarrow> nat) \<Rightarrow> (nat \<Rightarrow> int \<Rightarrow> int \<Rightarrow> int) \<Rightarrow> (allocator \<times> string) list
     \<Rightarrow> 'c store \<Rightarrow> 'c ColorAllocatorRef \<Rightarrow> 'c ColorAllocatorRef
     \<Rightarrow> (allocator \<times> (error + 'c option)) list \<times> 'c store \<times> 'c ColorAllocatorRef \<times> 'c ColorAllocatorRef" where
  "assignColors_in simpleHash nextInt [] store a b = ([], store, a, b)"
| "assignColors_in simpleHash nextInt ((First, ident) # calls) store a b =
     (case assignColor_in simpleHash nextInt ident store a of
        (r, store1, a1) \<Rightarrow>
          (case assignColors_in simpleHash nextInt calls store1 a1 b of
             (rs, final) \<Rightarrow> ((First, r) # rs, final)))"
| "assignColors_in simpleHash nextInt ((Second, ident) # calls) store a b =
     (case assignColor_in simpleHash nextInt ident store b of
        (r, store1, b1) \<Rightarrow>
          (case assignColors_in simpleHash nextInt calls store1 a b1 of
             (rs, final) \<Rightarrow> ((Second, r) # rs, final)))"

text \<open>The entries of a tagged list that belong to one allocator.\<close>

definition of_instance :: "allocator \<Rightarrow> (allocator \<times> 'x) list \<Rightarrow> 'x list" where
  "of_instance w xs = map snd (filter (\<lambda>x. fst x = w) xs)"

text \<open>The allocator as the operations of the earlier sections see it.\<close>

definition contents_of :: "'c store \<Rightarrow> 'c ColorAllocatorRef \<Rightarrow> 'c ColorAllocator" where
  "contents_of store this =
     \<lparr> availableColors = store ! availableColors this,
       fallbackColors = store ! fallbackColors this,
       assigned = assigned this,
       teamPlayerColors = teamPlayerColors this,
       sampleWOReplace = sampleWOReplace this \<rparr>"

text \<open>
  The fields of an allocator point at two different arrays of the store; two allocators
  are apart when neither's active palette is an array of the other.
\<close>

definition owns :: "'c store \<Rightarrow> 'c ColorAllocatorRef \<Rightarrow> bool" where
  "owns store this =
     (availableColors this < length store \<and> fallbackColors this < length store
      \<and> availableColors this \<noteq> fallbackColors this)"

definition apart :: "'c store \<Rightarrow> 'c ColorAllocatorRef \<Rightarrow> 'c ColorAllocatorRef \<Rightarrow> bool" where
  "apart store a b =
     (owns store a \<and> owns store b
      \<and> availableColors a \<noteq> availableColors b \<and> availableColors a \<noteq> fallbackColors b
      \<and> fallbackColors a \<noteq> availableColors b)"

section \<open>An example environment\<close>

text \<open>
  A hash and a generator to run the operations on concrete inputs: the length of the
  string, and the seed reduced into the range.
\<close>

definition exampleHash :: "string \<Rightarrow> nat" where
  "exampleHash s = length s"

definition exampleNextInt :: "nat \<Rightarrow> int \<Rightarrow> int \<Rightarrow> int" where
  "exampleNextInt seed lo hi = lo + int seed mod (hi - lo)"

definition exampleTeams :: ColoredTeams where
  "exampleTeams =
     \<lparr> Blue = ''Blue'', Red = ''Red'', Teal = ''Teal'', Purple = ''Purple'',
       Yellow = ''Yellow'', Orange = ''Orange'', Green = ''Green'', Bot = ''Bot'',
       Humans = ''Humans'', Nations = ''Nations'' \<rparr>"

text \<open>Colors that are their own channels, and tables of such colors.\<close>

definition exampleColor :: "real \<Rightarrow> real \<Rightarrow> real \<Rightarrow> RgbaColor" where
  "exampleColor r g b = \<lparr> rgb_r = r, rgb_g = g, rgb_b = b, rgb_a = 1 \<rparr>"

definition exampleToRgb :: "RgbaColor \<Rightarrow> RgbaColor" where
  "exampleToRgb c = c"

definition exampleColord :: "RgbaColor \<Rightarrow> RgbaColor" where
  "exampleColord rgb = rgb"

definition exampleTables :: "RgbaColor Colors" where
  "exampleTables =
     \<lparr> blueTeamColors = [exampleColor (81 / 2) (203 / 2) 255, exampleColor 0 0 200],
       botTeamColors = [exampleColor 120 120 120],
       greenTeamColors = [exampleColor 0 255 0, exampleColor 0 200 0],
       orangeTeamColors = [exampleColor 255 165 0],
       purpleTeamColors = [exampleColor 128 0 128],
       redTeamColors = [exampleColor 255 0 0, exampleColor 200 0 0, exampleColor 150 0 0],
       tealTeamColors = [exampleColor 0 128 128],
       yellowTeamColors = [exampleColor 255 255 0] \<rparr>"

text \<open>Greys given by their lightness, and the difference of lightness as the distance.\<close>

definition exampleToColor :: "real \<Rightarrow> real" where
  "exampleToColor lightness = lightness"

definition exampleDeltaE :: "real \<Rightarrow> real \<Rightarrow> real" where
  "exampleDeltaE l1 l2 = \<bar>l1 - l2\<bar>"

text \<open>A store with two palettes, and interleaved calls on two allocators.\<close>

definition exampleStore :: "string store" where
  "exampleStore = [[''red'', ''green'', ''blue''], [''grey'', ''black'']]"

definition exampleCalls :: "(allocator \<times> string) list" where
  "exampleCalls =
     [(First, ''a''), (Second, ''a''), (First, ''bb''), (First, ''ccc''), (Second, ''bb''),
      (First, ''dddd''), (Second, ''ccc''), (Second, ''dddd'')]"

section \<open>Lemmas about assignColor\<close>

lemma exampleNextInt_in_range: "nextInt_in_range exampleNextInt"
proof -
  have "lo + int seed mod (hi - lo) < hi" if "lo < hi" for seed :: nat and lo hi :: int
    using that pos_mod_bound [of "hi - lo" "int seed"] by linarith
  moreover have "lo \<le> lo + int seed mod (hi - lo)" if "lo < hi" for seed :: nat and lo hi :: int
    using that pos_mod_sign [of "hi - lo" "int seed"] by linarith
  ultimately show ?thesis
    unfolding nextInt_in_range_def exampleNextInt_def by blast
qed

lemma swap_in_range:
  "0 \<le> x \<Longrightarrow> x < int (length array) \<Longrightarrow> 0 \<le> y \<Longrightarrow> y < int (length array) \<Longrightarrow>
   swap array x y = (Inr (), array[nat x := array ! nat y, nat y := array ! nat x])"
  by (simp add: swap_def Let_def)

lemma assignColor_hit:
  "assigned this ident = Some color \<Longrightarrow>
   assignColor simpleHash nextInt ident this = (Inr color, this)"
  by (simp add: assignColor_def)

lemma assignColor_draw:
  fixes simpleHash :: "string \<Rightarrow> nat" and nextInt :: "nat \<Rightarrow> int \<Rightarrow> int \<Rightarrow> int"
    and this :: "'c ColorAllocator" and ident :: string
  assumes new: "assigned this ident = None"
    and rng: "nextInt_in_range nextInt"
    and lo: "0 \<le> sampleWOReplace this"
    and hi: "sampleWOReplace this < int (length (availableColors this))"
  defines "r \<equiv> nextInt (simpleHash ident) 0
                 (int (length (availableColors this)) - sampleWOReplace this)"
    and "m \<equiv> int (length (availableColors this)) - (sampleWOReplace this + 1)"
  shows "0 \<le> r \<and> r \<le> m \<and>
     assignColor simpleHash nextInt ident this =
       (Inr (Some (availableColors this ! nat r)),
        this\<lparr> sampleWOReplace := sampleWOReplace this + 1,
              availableColors :=
                (availableColors this)[nat r := availableColors this ! nat m,
                                       nat m := availableColors this ! nat r],
              assigned := (assigned this)(ident \<mapsto> Some (availableColors this ! nat r)) \<rparr>)"
proof -
  have "0 < int (length (availableColors this)) - sampleWOReplace this"
    using hi by simp
  with rng have r: "0 \<le> r" "r < int (length (availableColors this)) - sampleWOReplace this"
    unfolding nextInt_in_range_def r_def by blast+
  have m: "0 \<le> m" "m < int (length (availableColors this))"
    using lo hi by (simp_all add: m_def)
  have rl: "r < int (length (availableColors this))" using r lo by simp
  have sw: "swap (availableColors this) r m =
     (Inr (), (availableColors this)[nat r := availableColors this ! nat m,
                                   nat m := availableColors this ! nat r])"
    using r(1) rl m by (rule swap_in_range)
  have "assignColor simpleHash nextInt ident this =
       (Inr (Some (availableColors this ! nat r)),
        this\<lparr> sampleWOReplace := sampleWOReplace this + 1,
              availableColors :=
                (availableColors this)[nat r := availableColors this ! nat m,
                                       nat m := availableColors this ! nat r],
              assigned := (assigned this)(ident \<mapsto> Some (availableColors this ! nat r)) \<rparr>)"
    using new hi r(1) rl sw unfolding r_def m_def
    by (simp add: assignColor_def Let_def js_index_def)
  then show ?thesis using r by (simp add: m_def)
qed

lemma assignColor_exhausted:
  "assigned this ident = None \<Longrightarrow>
   sampleWOReplace this = int (length (availableColors this)) \<Longrightarrow>
   assignColor simpleHash nextInt ident this =
     assignColor simpleHash nextInt ident
       (this\<lparr> availableColors := fallbackColors this, sampleWOReplace := 0 \<rparr>)"
  by (simp add: assignColor_def split: option.splits)

lemma take_swap_mset:
  assumes "r \<le> m" and "m < length a"
  shows "mset (take (Suc m) a) = add_mset (a ! r) (mset (take m (a[r := a ! m, m := a ! r])))"
proof (cases "r = m")
  case True
  then show ?thesis using assms by (simp add: take_Suc_conv_app_nth)
next
  case False
  with assms have rm: "r < m" by simp
  have "take m (a[r := a ! m, m := a ! r]) = (take m a)[r := a ! m]"
    by (simp add: take_update_swap list_update_beyond)
  moreover have "mset ((take m a)[r := a ! m]) = add_mset (a ! m) (mset (take m a) - {#a ! r#})"
    using rm assms by (simp add: mset_update)
  moreover have "a ! r \<in># mset (take m a)"
    using rm assms by (metis in_set_conv_nth length_take min.absorb2 nth_take less_imp_le_nat set_mset_mset)
  ultimately show ?thesis using assms by (simp add: take_Suc_conv_app_nth)
qed

lemma assignColors_draws:
  fixes this :: "'c ColorAllocator"
  assumes "nextInt_in_range nextInt"
    and "distinct idents"
    and "\<forall>i \<in> set idents. assigned this i = None"
    and "0 \<le> sampleWOReplace this"
    and "sampleWOReplace this + int (length idents) \<le> int (length (availableColors this))"
  shows "\<exists>cs this'. assignColors simpleHash nextInt idents this = (map (\<lambda>c. Inr (Some c)) cs, this')
    \<and> length cs = length idents
    \<and> sampleWOReplace this' = sampleWOReplace this + int (length idents)
    \<and> length (availableColors this') = length (availableColors this)
    \<and> fallbackColors this' = fallbackColors this
    \<and> teamPlayerColors this' = teamPlayerColors this
    \<and> (\<forall>j. j \<notin> set idents \<longrightarrow> assigned this' j = assigned this j)
    \<and> mset (take (nat (int (length (availableColors this)) - sampleWOReplace this)) (availableColors this))
        = mset cs + mset (take (nat (int (length (availableColors this')) - sampleWOReplace this'))
                           (availableColors this'))"
  using assms
proof (induction idents arbitrary: this)
  case Nil
  then show ?case by simp
next
  case (Cons ident idents)
  let ?a = "availableColors this"
  let ?k = "sampleWOReplace this"
  let ?r = "nextInt (simpleHash ident) 0 (int (length ?a) - ?k)"
  let ?m = "int (length ?a) - (?k + 1)"
  let ?this1 = "this\<lparr> sampleWOReplace := ?k + 1,
              availableColors := ?a[nat ?r := ?a ! nat ?m, nat ?m := ?a ! nat ?r],
              assigned := (assigned this)(ident \<mapsto> Some (?a ! nat ?r)) \<rparr>"
  have new: "assigned this ident = None" using Cons.prems(3) by simp
  have hi: "?k < int (length ?a)" using Cons.prems(5) by simp
  from assignColor_draw [OF new Cons.prems(1) Cons.prems(4) hi, of simpleHash]
  have r: "0 \<le> ?r" "?r \<le> ?m"
    and step: "assignColor simpleHash nextInt ident this = (Inr (Some (?a ! nat ?r)), ?this1)"
    by simp_all
  have p1: "distinct idents" using Cons.prems(2) by simp
  have p2: "\<forall>i \<in> set idents. assigned ?this1 i = None"
    using Cons.prems(2,3) by auto
  have p3: "0 \<le> sampleWOReplace ?this1" using Cons.prems(4) by simp
  have p4: "sampleWOReplace ?this1 + int (length idents) \<le> int (length (availableColors ?this1))"
    using Cons.prems(5) by simp
  from Cons.IH [OF Cons.prems(1) p1 p2 p3 p4]
  obtain cs this' where rest: "assignColors simpleHash nextInt idents ?this1 = (map (\<lambda>c. Inr (Some c)) cs, this')"
    and len: "length cs = length idents"
    and k': "sampleWOReplace this' = sampleWOReplace ?this1 + int (length idents)"
    and n': "length (availableColors this') = length (availableColors ?this1)"
    and fb: "fallbackColors this' = fallbackColors ?this1"
    and tp: "teamPlayerColors this' = teamPlayerColors ?this1"
    and asg: "\<forall>j. j \<notin> set idents \<longrightarrow> assigned this' j = assigned ?this1 j"
    and ms: "mset (take (nat (int (length (availableColors ?this1)) - sampleWOReplace ?this1)) (availableColors ?this1))
        = mset cs + mset (take (nat (int (length (availableColors this')) - sampleWOReplace this'))
                           (availableColors this'))"
    by blast
  have mlt: "nat ?m < length ?a" using Cons.prems(4) hi by simp
  have rm: "nat ?r \<le> nat ?m" using r by simp
  have suc: "nat (int (length ?a) - ?k) = Suc (nat ?m)" using hi by simp
  have "mset (take (nat (int (length ?a) - ?k)) ?a)
      = add_mset (?a ! nat ?r) (mset (take (nat ?m) (?a[nat ?r := ?a ! nat ?m, nat ?m := ?a ! nat ?r])))"
    unfolding suc using rm mlt by (rule take_swap_mset)
  also have "mset (take (nat ?m) (?a[nat ?r := ?a ! nat ?m, nat ?m := ?a ! nat ?r]))
     = mset cs + mset (take (nat (int (length (availableColors this')) - sampleWOReplace this'))
                           (availableColors this'))"
    using ms by simp
  finally have ms': "mset (take (nat (int (length ?a) - ?k)) ?a)
     = mset (?a ! nat ?r # cs) + mset (take (nat (int (length (availableColors this')) - sampleWOReplace this'))
                           (availableColors this'))"
    by simp
  show ?case
    apply (rule exI [of _ "?a ! nat ?r # cs"])
    apply (rule exI [of _ this'])
    using step rest len k' n' fb tp asg ms'
    by simp
qed

lemma assignColors_example:
  "fst (assignColors exampleHash exampleNextInt [''a'', ''bb'', ''ccc'', ''dddd'']
          (constructor [''red'', ''green'', ''blue''] [''grey'', ''black'']))
   = [Inr (Some ''green''), Inr (Some ''red''), Inr (Some ''blue''), Inr (Some ''grey'')]"
  by (simp add: assignColor_def constructor_def exampleHash_def exampleNextInt_def js_index_def swap_def Let_def)

lemma assignColor_assigned:
  "assignColor simpleHash nextInt ident this = (res, this') \<Longrightarrow>
   assigned this' = assigned this
   \<or> (assigned this ident = None \<and> (\<exists>c. res = Inr c \<and> assigned this' = (assigned this)(ident \<mapsto> c)))"
  by (auto simp: assignColor_def Let_def swap_def split: option.splits if_splits)

lemma assignColor_frame:
  "assignColor simpleHash nextInt ident this = (res, this') \<Longrightarrow>
   fallbackColors this' = fallbackColors this \<and> teamPlayerColors this' = teamPlayerColors this"
  by (auto simp: assignColor_def Let_def swap_def split: option.splits if_splits)

lemma assignColor_returns_entry:
  "assignColor simpleHash nextInt ident this = (Inr color, this') \<Longrightarrow>
   assigned this' ident = Some color"
  by (auto simp: assignColor_def Let_def swap_def split: option.splits if_splits)

lemma assignColor_keeps_assigned:
  "assigned this j = Some v \<Longrightarrow>
   assigned (snd (assignColor simpleHash nextInt ident this)) j = Some v"
  using assignColor_assigned [of simpleHash nextInt ident this]
  by (cases "assignColor simpleHash nextInt ident this") (auto split: if_splits)

lemma assignColor_keeps_teamPlayerColors:
  "teamPlayerColors (snd (assignColor simpleHash nextInt ident this)) = teamPlayerColors this"
  using assignColor_frame [of simpleHash nextInt ident this]
  by (cases "assignColor simpleHash nextInt ident this") simp

lemma getTeamColorVariations_state:
  "snd (getTeamColorVariations simpleHash nextInt teams tables team this) = this
   \<or> snd (getTeamColorVariations simpleHash nextInt teams tables team this)
       = snd (assignColor simpleHash nextInt team this)"
  by (simp add: getTeamColorVariations_def split: prod.splits sum.splits)

lemma getTeamColorVariations_keeps_assigned:
  "assigned this j = Some v \<Longrightarrow>
   assigned (snd (getTeamColorVariations simpleHash nextInt teams tables team this)) j = Some v"
  using getTeamColorVariations_state [of simpleHash nextInt teams tables team this]
    assignColor_keeps_assigned [of this j v simpleHash nextInt team]
  by auto

lemma getTeamColorVariations_keeps_teamPlayerColors:
  "teamPlayerColors (snd (getTeamColorVariations simpleHash nextInt teams tables team this))
     = teamPlayerColors this"
  using getTeamColorVariations_state [of simpleHash nextInt teams tables team this]
    assignColor_keeps_teamPlayerColors [of simpleHash nextInt team this]
  by auto

lemma assignTeamColor_state:
  "snd (assignTeamColor simpleHash nextInt toRgb colord teams tables team this)
     = snd (getTeamColorVariations simpleHash nextInt teams tables team this)"
  by (simp add: assignTeamColor_def Let_def split: prod.splits sum.splits option.splits)

lemma assignTeamPlayerColor_hit:
  "teamPlayerColors this playerId = Some color \<Longrightarrow>
   assignTeamPlayerColor simpleHash nextInt teams tables team playerId this = (Inr color, this)"
  by (simp add: assignTeamPlayerColor_def)

lemma assignTeamPlayerColor_keeps_assigned:
  "assigned this j = Some v \<Longrightarrow>
   assigned (snd (assignTeamPlayerColor simpleHash nextInt teams tables team playerId this)) j
     = Some v"
  using getTeamColorVariations_keeps_assigned [of this j v simpleHash nextInt teams tables team]
  by (auto simp: assignTeamPlayerColor_def Let_def split: prod.splits sum.splits option.splits)

lemma assignTeamPlayerColor_keeps_teamPlayerColors:
  "teamPlayerColors this j = Some v \<Longrightarrow>
   teamPlayerColors (snd (assignTeamPlayerColor simpleHash nextInt teams tables team playerId this)) j
     = Some v"
  using getTeamColorVariations_keeps_teamPlayerColors [of simpleHash nextInt teams tables team this]
  by (auto simp: assignTeamPlayerColor_def Let_def split: prod.splits sum.splits option.splits)

lemma perform_keeps_assigned:
  "assigned this j = Some v \<Longrightarrow>
   assigned (perform simpleHash nextInt toRgb colord teams tables c this) j = Some v"
  by (cases c)
    (simp_all add: perform_def assignColor_keeps_assigned assignTeamColor_state
      getTeamColorVariations_keeps_assigned assignTeamPlayerColor_keeps_assigned)

lemma perform_keeps_teamPlayerColors:
  "teamPlayerColors this j = Some v \<Longrightarrow>
   teamPlayerColors (perform simpleHash nextInt toRgb colord teams tables c this) j = Some v"
  by (cases c)
    (simp_all add: perform_def assignColor_keeps_teamPlayerColors assignTeamColor_state
      getTeamColorVariations_keeps_teamPlayerColors assignTeamPlayerColor_keeps_teamPlayerColors)

lemma performAll_keeps_assigned:
  "assigned this j = Some v \<Longrightarrow>
   assigned (performAll simpleHash nextInt toRgb colord teams tables calls this) j = Some v"
  unfolding performAll_def
  by (induction calls arbitrary: this) (simp_all add: perform_keeps_assigned)

lemma performAll_keeps_teamPlayerColors:
  "teamPlayerColors this j = Some v \<Longrightarrow>
   teamPlayerColors (performAll simpleHash nextInt toRgb colord teams tables calls this) j = Some v"
  unfolding performAll_def
  by (induction calls arbitrary: this) (simp_all add: perform_keeps_teamPlayerColors)

lemma getTeamColorVariations_fixed:
  assumes "team \<in> {Blue teams, Red teams, Teal teams, Purple teams, Yellow teams, Orange teams,
                   Green teams, Bot teams, Humans teams, Nations teams}"
  shows "\<exists>teamColors. teamColors \<in> {blueTeamColors tables, redTeamColors tables, tealTeamColors tables,
              purpleTeamColors tables, yellowTeamColors tables, orangeTeamColors tables,
              greenTeamColors tables, botTeamColors tables}
     \<and> (\<forall>simpleHash nextInt this.
          getTeamColorVariations simpleHash nextInt teams tables team this
            = (Inr (map Some teamColors), this))"
  using assms unfolding getTeamColorVariations_def by auto

lemma getTeamColorVariations_other:
  assumes "team \<notin> {Blue teams, Red teams, Teal teams, Purple teams, Yellow teams, Orange teams,
                   Green teams, Bot teams, Humans teams, Nations teams}"
  shows "getTeamColorVariations simpleHash nextInt teams tables team this =
     (case assignColor simpleHash nextInt team this of
        (Inl e, this1) \<Rightarrow> (Inl e, this1)
      | (Inr color, this1) \<Rightarrow> (Inr [color], this1))"
  using assms unfolding getTeamColorVariations_def by simp

lemma exampleTeams_Clan:
  "''Clan'' \<notin> {Blue exampleTeams, Red exampleTeams, Teal exampleTeams, Purple exampleTeams,
       Yellow exampleTeams, Orange exampleTeams, Green exampleTeams, Bot exampleTeams,
       Humans exampleTeams, Nations exampleTeams}"
  by (simp add: exampleTeams_def)

lemma exampleTeams_Blue:
  "''Blue'' \<in> {Blue exampleTeams, Red exampleTeams, Teal exampleTeams, Purple exampleTeams,
       Yellow exampleTeams, Orange exampleTeams, Green exampleTeams, Bot exampleTeams,
       Humans exampleTeams, Nations exampleTeams}"
  by (simp add: exampleTeams_def)

lemma example_assignColor_Clan:
  "assignColor exampleHash exampleNextInt ''Clan''
     (constructor [exampleColor 1 1 1, exampleColor (5 / 2) 2 2, exampleColor 3 3 3]
        [exampleColor 9 9 9])
   = (Inr (Some (exampleColor (5 / 2) 2 2)),
      \<lparr> availableColors = [exampleColor 1 1 1, exampleColor 3 3 3, exampleColor (5 / 2) 2 2],
        fallbackColors = [exampleColor 9 9 9],
        assigned = [''Clan'' \<mapsto> Some (exampleColor (5 / 2) 2 2)],
        teamPlayerColors = Map.empty,
        sampleWOReplace = 1 \<rparr>)"
  by (simp add: assignColor_def constructor_def exampleHash_def exampleNextInt_def js_index_def
      swap_def Let_def)

lemma foldl_Math_min_Num:
  "foldl (\<lambda>m a. Math_min m (Num (d a))) (Num x) xs = Num (fold min (map d xs) x)"
  by (induction xs arbitrary: x) (simp_all add: min.commute)

lemma minDeltaE_closest:
  assumes "assignedLabColors \<noteq> []"
  shows "minDeltaE deltaE2000 lab1 assignedLabColors
           = Num (Min (deltaE2000 lab1 ` set assignedLabColors))"
proof -
  obtain a as where xs: "assignedLabColors = a # as"
    using assms by (cases assignedLabColors) auto
  have "minDeltaE deltaE2000 lab1 (a # as) = Num (fold min (map (deltaE2000 lab1) as) (deltaE2000 lab1 a))"
    by (simp add: minDeltaE_def foldl_Math_min_Num)
  also have "fold min (map (deltaE2000 lab1) as) (deltaE2000 lab1 a)
      = Min (set (deltaE2000 lab1 a # map (deltaE2000 lab1) as))"
    by (rule Min.set_eq_fold [symmetric])
  finally show ?thesis by (simp add: xs)
qed

lemma minDeltaE_closestDistance:
  assumes "assignedColors \<noteq> []"
  shows "minDeltaE deltaE2000 (toColor candidate) (map toColor assignedColors)
           = Num (closestDistance toColor deltaE2000 assignedColors candidate)"
  using assms by (simp add: minDeltaE_closest closestDistance_def image_image)

lemma selectLoop_result:
  fixes f :: "nat \<Rightarrow> real"
  assumes m: "\<forall>j < length cands. minDeltaE deltaE2000 (toColor (cands ! j)) labs = Num (f j)"
  shows "(selectLoop toColor deltaE2000 cands labs i (Num M) k = k
            \<and> (\<forall>j. i \<le> j \<and> j < length cands \<longrightarrow> f j \<le> M))
       \<or> (i \<le> selectLoop toColor deltaE2000 cands labs i (Num M) k
            \<and> selectLoop toColor deltaE2000 cands labs i (Num M) k < length cands
            \<and> M < f (selectLoop toColor deltaE2000 cands labs i (Num M) k)
            \<and> (\<forall>j. i \<le> j \<and> j < length cands \<longrightarrow>
                  f j \<le> f (selectLoop toColor deltaE2000 cands labs i (Num M) k))
            \<and> (\<forall>j. i \<le> j \<and> j < selectLoop toColor deltaE2000 cands labs i (Num M) k \<longrightarrow>
                  f j < f (selectLoop toColor deltaE2000 cands labs i (Num M) k)))"
proof (induction "length cands - i" arbitrary: i M k)
  case 0
  then have "selectLoop toColor deltaE2000 cands labs i (Num M) k = k"
    by (subst selectLoop.simps) simp
  with 0 show ?case by simp
next
  case (Suc n)
  then have lt: "i < length cands" and n: "n = length cands - (i + 1)" by simp_all
  have mi: "minDeltaE deltaE2000 (toColor (cands ! i)) labs = Num (f i)"
    using m lt by simp
  show ?case
  proof (cases "f i > M")
    case True
    let ?res = "selectLoop toColor deltaE2000 cands labs (i + 1) (Num (f i)) i"
    have unroll: "selectLoop toColor deltaE2000 cands labs i (Num M) k = ?res"
      using lt mi True by (subst selectLoop.simps) (simp add: Let_def)
    from Suc.hyps(1) [OF n, of "f i" i]
    consider (keep) "?res = i" "\<forall>j. i + 1 \<le> j \<and> j < length cands \<longrightarrow> f j \<le> f i"
      | (later) "i + 1 \<le> ?res" "?res < length cands" "f i < f ?res"
          "\<forall>j. i + 1 \<le> j \<and> j < length cands \<longrightarrow> f j \<le> f ?res"
          "\<forall>j. i + 1 \<le> j \<and> j < ?res \<longrightarrow> f j < f ?res"
      by blast
    then show ?thesis
    proof cases
      case keep
      have "\<forall>j. i \<le> j \<and> j < length cands \<longrightarrow> f j \<le> f i"
      proof (intro allI impI)
        fix j assume "i \<le> j \<and> j < length cands"
        then show "f j \<le> f i" using keep(2) by (cases "j = i") auto
      qed
      then show ?thesis unfolding unroll using keep(1) lt True by auto
    next
      case later
      have a: "\<forall>j. i \<le> j \<and> j < length cands \<longrightarrow> f j \<le> f ?res"
      proof (intro allI impI)
        fix j assume "i \<le> j \<and> j < length cands"
        then show "f j \<le> f ?res" using later(3,4) by (cases "j = i") auto
      qed
      have b: "\<forall>j. i \<le> j \<and> j < ?res \<longrightarrow> f j < f ?res"
      proof (intro allI impI)
        fix j assume "i \<le> j \<and> j < ?res"
        then show "f j < f ?res" using later(3,5) by (cases "j = i") auto
      qed
      have "M < f ?res" using True later(3) by simp
      moreover have "i \<le> ?res" using later(1) by simp
      ultimately show ?thesis unfolding unroll using later(2) a b by blast
    qed
  next
    case False
    let ?res = "selectLoop toColor deltaE2000 cands labs (i + 1) (Num M) k"
    have unroll: "selectLoop toColor deltaE2000 cands labs i (Num M) k = ?res"
      using lt mi False by (subst selectLoop.simps) (simp add: Let_def)
    from Suc.hyps(1) [OF n, of M k]
    consider (keep) "?res = k" "\<forall>j. i + 1 \<le> j \<and> j < length cands \<longrightarrow> f j \<le> M"
      | (later) "i + 1 \<le> ?res" "?res < length cands" "M < f ?res"
          "\<forall>j. i + 1 \<le> j \<and> j < length cands \<longrightarrow> f j \<le> f ?res"
          "\<forall>j. i + 1 \<le> j \<and> j < ?res \<longrightarrow> f j < f ?res"
      by blast
    then show ?thesis
    proof cases
      case keep
      have "\<forall>j. i \<le> j \<and> j < length cands \<longrightarrow> f j \<le> M"
      proof (intro allI impI)
        fix j assume "i \<le> j \<and> j < length cands"
        then show "f j \<le> M" using keep(2) False by (cases "j = i") auto
      qed
      then show ?thesis unfolding unroll using keep(1) by blast
    next
      case later
      have a: "\<forall>j. i \<le> j \<and> j < length cands \<longrightarrow> f j \<le> f ?res"
      proof (intro allI impI)
        fix j assume "i \<le> j \<and> j < length cands"
        then show "f j \<le> f ?res" using later(3,4) False by (cases "j = i") auto
      qed
      have b: "\<forall>j. i \<le> j \<and> j < ?res \<longrightarrow> f j < f ?res"
      proof (intro allI impI)
        fix j assume "i \<le> j \<and> j < ?res"
        then show "f j < f ?res" using later(3,5) False by (cases "j = i") auto
      qed
      have "i \<le> ?res" using later(1) by simp
      then show ?thesis unfolding unroll using later(2,3) a b by blast
    qed
  qed
qed

lemma selectDistinctColorIndex_example:
  "selectDistinctColorIndex exampleToColor exampleDeltaE [95, 0, 0] [100, 90] = Inr (Some 1)"
  by code_simp

lemma selectDistinctColorIndex_example_zero:
  "selectDistinctColorIndex exampleToColor exampleDeltaE [100, 100] [100] = Inr (Some 0)"
  by code_simp

subsection \<open>The store and the contents\<close>

lemma assignColor_in_simulates:
  assumes "owns store this"
    and "assignColor_in simpleHash nextInt ident store this = (res, store', this')"
  shows "assignColor simpleHash nextInt ident (contents_of store this)
           = (res, contents_of store' this')
    \<and> owns store' this'
    \<and> length store \<le> length store'
    \<and> (\<forall>a < length store. a \<noteq> availableColors this \<longrightarrow> store' ! a = store ! a)
    \<and> fallbackColors this' = fallbackColors this
    \<and> (availableColors this' = availableColors this \<or> length store \<le> availableColors this')"
proof (cases "assigned this ident")
  case (Some color)
  then show ?thesis using assms
    by (auto simp: assignColor_in_def assignColor_def contents_of_def)
next
  case None
  show ?thesis
  proof (cases "sampleWOReplace this = int (length (store ! availableColors this))")
    case True
    then show ?thesis using assms None
      by (auto simp: assignColor_in_def assignColor_def contents_of_def owns_def swap_in_def
          swap_def Let_def js_index_def nth_append split: if_splits)
  next
    case False
    then show ?thesis using assms None
      by (auto simp: assignColor_in_def assignColor_def contents_of_def owns_def swap_in_def
          swap_def Let_def js_index_def nth_append split: if_splits)
  qed
qed

lemma assignColor_in_frame:
  assumes "owns store this" and "owns store other"
    and "availableColors other \<noteq> availableColors this"
    and "fallbackColors other \<noteq> availableColors this"
    and "availableColors other \<noteq> fallbackColors this"
    and "assignColor_in simpleHash nextInt ident store this = (res, store', this')"
  shows "contents_of store' other = contents_of store other
    \<and> owns store' other \<and> owns store' this'
    \<and> availableColors other \<noteq> availableColors this'
    \<and> fallbackColors other \<noteq> availableColors this'
    \<and> availableColors other \<noteq> fallbackColors this'"
proof -
  note sim = assignColor_in_simulates [OF assms(1) assms(6)]
  have o: "availableColors other < length store" "fallbackColors other < length store"
    "availableColors other \<noteq> fallbackColors other"
    using assms(2) by (simp_all add: owns_def)
  have "store' ! availableColors other = store ! availableColors other"
    using sim o(1) assms(3) by blast
  moreover have "store' ! fallbackColors other = store ! fallbackColors other"
    using sim o(2) assms(4) by blast
  ultimately have c: "contents_of store' other = contents_of store other"
    by (simp add: contents_of_def)
  have len: "length store \<le> length store'" using sim by blast
  have own: "owns store' other" using o len by (simp add: owns_def)
  have fb: "fallbackColors this' = fallbackColors this" using sim by blast
  have av: "availableColors this' = availableColors this \<or> length store \<le> availableColors this'"
    using sim by blast
  have "availableColors other \<noteq> availableColors this'"
    using av assms(3) o(1) by auto
  moreover have "fallbackColors other \<noteq> availableColors this'"
    using av assms(4) o(2) by auto
  moreover have "availableColors other \<noteq> fallbackColors this'"
    using fb assms(5) by simp
  moreover have "owns store' this'" using sim by blast
  ultimately show ?thesis using c own by blast
qed

lemma assignColors_in_First:
  "assignColor_in simpleHash nextInt ident store a = (r, store1, a1) \<Longrightarrow>
   fst (assignColors_in simpleHash nextInt ((First, ident) # calls) store a b)
     = (First, r) # fst (assignColors_in simpleHash nextInt calls store1 a1 b)"
  by (simp split: prod.splits)

lemma assignColors_in_Second:
  "assignColor_in simpleHash nextInt ident store b = (r, store1, b1) \<Longrightarrow>
   fst (assignColors_in simpleHash nextInt ((Second, ident) # calls) store a b)
     = (Second, r) # fst (assignColors_in simpleHash nextInt calls store1 a b1)"
  by (simp split: prod.splits)

lemma assignColors_in_projects:
  assumes "apart store a b"
  shows "of_instance First (fst (assignColors_in simpleHash nextInt calls store a b))
           = fst (assignColors simpleHash nextInt (of_instance First calls) (contents_of store a))
    \<and> of_instance Second (fst (assignColors_in simpleHash nextInt calls store a b))
           = fst (assignColors simpleHash nextInt (of_instance Second calls) (contents_of store b))"
  using assms
proof (induction calls arbitrary: store a b)
  case Nil
  then show ?case by (simp add: of_instance_def)
next
  case (Cons c calls)
  obtain w ident where c: "c = (w, ident)" by (cases c)
  have ap: "owns store a" "owns store b"
    "availableColors a \<noteq> availableColors b" "availableColors a \<noteq> fallbackColors b"
    "fallbackColors a \<noteq> availableColors b"
    using Cons.prems by (simp_all add: apart_def)
  show ?case
  proof (cases w)
    case First
    obtain r store1 a1 where step: "assignColor_in simpleHash nextInt ident store a = (r, store1, a1)"
      by (cases "assignColor_in simpleHash nextInt ident store a") auto
    have sim: "assignColor simpleHash nextInt ident (contents_of store a) = (r, contents_of store1 a1)"
      using assignColor_in_simulates [OF ap(1) step] by blast
    have fr: "contents_of store1 b = contents_of store b" "owns store1 b" "owns store1 a1"
      "availableColors b \<noteq> availableColors a1" "fallbackColors b \<noteq> availableColors a1"
      "availableColors b \<noteq> fallbackColors a1"
      using assignColor_in_frame [OF ap(1) ap(2) ap(3) [symmetric] ap(4) [symmetric]
          ap(5) [symmetric] step]
      by blast+
    have "apart store1 a1 b" using fr by (auto simp: apart_def)
    from Cons.IH [OF this] show ?thesis
      unfolding c First assignColors_in_First [OF step] fr(1)
      by (simp add: of_instance_def sim split: prod.splits)
  next
    case Second
    obtain r store1 b1 where step: "assignColor_in simpleHash nextInt ident store b = (r, store1, b1)"
      by (cases "assignColor_in simpleHash nextInt ident store b") auto
    have sim: "assignColor simpleHash nextInt ident (contents_of store b) = (r, contents_of store1 b1)"
      using assignColor_in_simulates [OF ap(2) step] by blast
    have fr: "contents_of store1 a = contents_of store a" "owns store1 a" "owns store1 b1"
      "availableColors a \<noteq> availableColors b1" "fallbackColors a \<noteq> availableColors b1"
      "availableColors a \<noteq> fallbackColors b1"
      using assignColor_in_frame [OF ap(2) ap(1) ap(3) ap(5) ap(4) step]
      by blast+
    have "apart store1 a b1" using fr by (auto simp: apart_def)
    from Cons.IH [OF this] show ?thesis
      unfolding c Second assignColors_in_Second [OF step] fr(1)
      by (simp add: of_instance_def sim split: prod.splits)
  qed
qed

lemma constructor_in_twice:
  assumes "colorsA < length store" and "fallbackA < length store"
    and "colorsB < length store" and "fallbackB < length store"
    and "constructor_in store colorsA fallbackA = (store1, a)"
    and "constructor_in store1 colorsB fallbackB = (store2, b)"
  shows "apart store2 a b
    \<and> contents_of store2 a = constructor (store ! colorsA) (store ! fallbackA)
    \<and> contents_of store2 b = constructor (store ! colorsB) (store ! fallbackB)"
  using assms
  by (auto simp: constructor_in_def Let_def apart_def owns_def contents_of_def constructor_def
      nth_append)

section \<open>Properties of swap\<close>

text \<open>
  C7. For every array and integer indices \<open>x\<close> and \<open>y\<close>, swap throws if and only if
  \<open>x\<close> or \<open>y\<close> lies outside \<open>[0, length)\<close>, so an index equal to the length or a
  negative one is rejected, neither wrapped nor clamped; a throwing call leaves the
  array as it was, and a call that does not throw exchanges the two elements.
\<close>

theorem swap_throws_iff_out_of_bounds:
  "((\<exists>e. fst (swap array x y) = Inl e) =
      (x < 0 \<or> int (length array) \<le> x \<or> y < 0 \<or> int (length array) \<le> y))
   \<and> snd (swap array x y) =
       (if x < 0 \<or> int (length array) \<le> x \<or> y < 0 \<or> int (length array) \<le> y then array
        else array[nat x := array ! nat y, nat y := array ! nat x])"
  by (auto simp: swap_def Let_def)

theorem swap_throws_iff_out_of_bounds_witness:
  "(\<exists>e. fst (swap [1, 2, 3 :: nat] 3 0) = Inl e) \<and> snd (swap [1, 2, 3 :: nat] 3 0) = [1, 2, 3]
   \<and> (\<exists>e. fst (swap [1, 2, 3 :: nat] 1 (- 1)) = Inl e)
   \<and> snd (swap [1, 2, 3 :: nat] 1 (- 1)) = [1, 2, 3]
   \<and> snd (swap [1, 2, 3 :: nat] 2 0) = [3, 2, 1]"
  using swap_throws_iff_out_of_bounds [of "[1, 2, 3 :: nat]" 3 0]
    swap_throws_iff_out_of_bounds [of "[1, 2, 3 :: nat]" 1 "- 1"]
    swap_throws_iff_out_of_bounds [of "[1, 2, 3 :: nat]" 2 0]
  by simp

section \<open>Properties of assignColor\<close>

text \<open>
  C1. An allocator is constructed with a primary palette of pairwise-distinct colors,
  and assignColor is called with pairwise-distinct identities, at most as many as the
  palette has colors (so in particular with exactly N of them). Provided the generator
  keeps its draws in the range it is given, every call returns a color, the colors
  returned are pairwise distinct, and each is a color of the primary palette.
\<close>

theorem assignColor_no_repeat_before_exhaustion:
  assumes "nextInt_in_range nextInt"
    and "distinct colors"
    and "distinct idents"
    and "length idents \<le> length colors"
  shows "\<exists>cs. fst (assignColors simpleHash nextInt idents (constructor colors fallback))
                 = map (\<lambda>c. Inr (Some c)) cs
              \<and> length cs = length idents \<and> distinct cs \<and> set cs \<subseteq> set colors"
proof -
  let ?s0 = "constructor colors fallback"
  have "\<forall>i \<in> set idents. assigned ?s0 i = None" by (simp add: constructor_def)
  moreover have "0 \<le> sampleWOReplace ?s0" by (simp add: constructor_def)
  moreover have "sampleWOReplace ?s0 + int (length idents) \<le> int (length (availableColors ?s0))"
    using assms(4) by (simp add: constructor_def)
  ultimately obtain cs this' where
    run: "assignColors simpleHash nextInt idents ?s0 = (map (\<lambda>c. Inr (Some c)) cs, this')"
    and len: "length cs = length idents"
    and ms: "mset (take (nat (int (length (availableColors ?s0)) - sampleWOReplace ?s0))
                (availableColors ?s0))
        = mset cs + mset (take (nat (int (length (availableColors this')) - sampleWOReplace this'))
                           (availableColors this'))"
    using assignColors_draws [OF assms(1) assms(3), of ?s0 simpleHash] by blast
  from ms have "mset colors = mset cs + mset (take (nat (int (length (availableColors this')) - sampleWOReplace this'))
                           (availableColors this'))"
    by (simp add: constructor_def)
  then have eq: "mset colors = mset (cs @ take (nat (int (length (availableColors this')) - sampleWOReplace this'))
                           (availableColors this'))"
    by simp
  have "distinct cs"
    using mset_eq_imp_distinct_iff [OF eq] assms(2) by simp
  moreover have "set cs \<subseteq> set colors"
    using mset_eq_setD [OF eq] by auto
  ultimately show ?thesis using run len by auto
qed

theorem assignColor_no_repeat_before_exhaustion_witness:
  "nextInt_in_range exampleNextInt
   \<and> distinct [''red'', ''green'', ''blue'']
   \<and> distinct [''a'', ''bb'', ''ccc'']
   \<and> length [''a'', ''bb'', ''ccc''] \<le> length [''red'', ''green'', ''blue'']
   \<and> (\<exists>cs. fst (assignColors exampleHash exampleNextInt [''a'', ''bb'', ''ccc'']
                   (constructor [''red'', ''green'', ''blue''] [''grey'', ''black'']))
               = map (\<lambda>c. Inr (Some c)) cs
            \<and> length cs = length [''a'', ''bb'', ''ccc''] \<and> distinct cs
            \<and> set cs \<subseteq> set [''red'', ''green'', ''blue''])"
  using assignColor_no_repeat_before_exhaustion [OF exampleNextInt_in_range,
      of "[''red'', ''green'', ''blue'']" "[''a'', ''bb'', ''ccc'']" exampleHash "[''grey'', ''black'']"]
    exampleNextInt_in_range
  by simp

text \<open>
  C2. An allocator is constructed with a primary palette of N colors and a non-empty
  fallback palette, and N pairwise-distinct identities are assigned: the draw cursor is
  then N. The next call, for a new identity, draws with the cursor back at 0 from a copy
  of the fallback palette: the index drawn lies in \<open>[0, length fallback)\<close>, the color
  returned is the fallback palette's entry there, the active palette is that copy with
  the entry moved to the end, the fallback palette itself is as it was, and the cursor
  is 1 afterwards.
\<close>

theorem assignColor_recycles_fallback:
  fixes simpleHash :: "string \<Rightarrow> nat" and nextInt :: "nat \<Rightarrow> int \<Rightarrow> int \<Rightarrow> int"
    and colors fallback :: "'c list"
  assumes "nextInt_in_range nextInt"
    and "fallback \<noteq> []"
    and "distinct (idents @ [ident])"
    and "length idents = length colors"
  defines "this \<equiv> snd (assignColors simpleHash nextInt idents (constructor colors fallback))"
    and "r \<equiv> nat (nextInt (simpleHash ident) 0 (int (length fallback)))"
  shows "sampleWOReplace this = int (length colors)
    \<and> length (availableColors this) = length colors
    \<and> fallbackColors this = fallback
    \<and> r < length fallback
    \<and> assignColor simpleHash nextInt ident this =
        (Inr (Some (fallback ! r)),
         this\<lparr> sampleWOReplace := 1,
               availableColors :=
                 fallback[r := fallback ! (length fallback - 1),
                          length fallback - 1 := fallback ! r],
               assigned := (assigned this)(ident \<mapsto> Some (fallback ! r)) \<rparr>)"
proof -
  let ?s0 = "constructor colors fallback"
  have d: "distinct idents" and nin: "ident \<notin> set idents" using assms(3) by simp_all
  have "\<forall>i \<in> set idents. assigned ?s0 i = None" by (simp add: constructor_def)
  moreover have "0 \<le> sampleWOReplace ?s0" by (simp add: constructor_def)
  moreover have "sampleWOReplace ?s0 + int (length idents) \<le> int (length (availableColors ?s0))"
    using assms(4) by (simp add: constructor_def)
  ultimately obtain cs this' where
    run: "assignColors simpleHash nextInt idents ?s0 = (map (\<lambda>c. Inr (Some c)) cs, this')"
    and k: "sampleWOReplace this' = sampleWOReplace ?s0 + int (length idents)"
    and n: "length (availableColors this') = length (availableColors ?s0)"
    and fb: "fallbackColors this' = fallbackColors ?s0"
    and asg: "\<forall>j. j \<notin> set idents \<longrightarrow> assigned this' j = assigned ?s0 j"
    using assignColors_draws [OF assms(1) d, of ?s0 simpleHash] by blast
  have this': "this = this'" by (simp add: this_def run)
  have k': "sampleWOReplace this = int (length colors)"
    using k assms(4) by (simp add: this' constructor_def)
  have n': "length (availableColors this) = length colors"
    using n by (simp add: this' constructor_def)
  have fb': "fallbackColors this = fallback"
    using fb by (simp add: this' constructor_def)
  have new: "assigned this ident = None"
    using asg nin by (simp add: this' constructor_def)
  let ?s1 = "this\<lparr> availableColors := fallbackColors this, sampleWOReplace := 0 \<rparr>"
  have ex: "assignColor simpleHash nextInt ident this = assignColor simpleHash nextInt ident ?s1"
    using new k' n' by (intro assignColor_exhausted) simp_all
  have new1: "assigned ?s1 ident = None" using new by simp
  have lo1: "0 \<le> sampleWOReplace ?s1" by simp
  have hi1: "sampleWOReplace ?s1 < int (length (availableColors ?s1))"
    using assms(2) fb' by simp
  from assignColor_draw [OF new1 assms(1) lo1 hi1, of simpleHash]
  have r0: "0 \<le> nextInt (simpleHash ident) 0 (int (length fallback))"
    and r1: "nextInt (simpleHash ident) 0 (int (length fallback)) \<le> int (length fallback) - 1"
    and step: "assignColor simpleHash nextInt ident ?s1 =
        (Inr (Some (fallback ! r)),
         this\<lparr> sampleWOReplace := 1,
               availableColors :=
                 fallback[r := fallback ! (length fallback - 1),
                          length fallback - 1 := fallback ! r],
               assigned := (assigned this)(ident \<mapsto> Some (fallback ! r)) \<rparr>)"
    using assms(2) by (simp_all add: fb' r_def nat_diff_distrib')
  have "r < length fallback" using r0 r1 assms(2) by (simp add: r_def)
  then show ?thesis using k' n' fb' ex step by simp
qed

theorem assignColor_recycles_fallback_witness:
  "nextInt_in_range exampleNextInt
   \<and> [''grey'', ''black''] \<noteq> []
   \<and> distinct ([''a'', ''bb'', ''ccc''] @ [''dddd''])
   \<and> length [''a'', ''bb'', ''ccc''] = length [''red'', ''green'', ''blue'']
   \<and> fst (assignColor exampleHash exampleNextInt ''dddd''
        (snd (assignColors exampleHash exampleNextInt [''a'', ''bb'', ''ccc'']
           (constructor [''red'', ''green'', ''blue''] [''grey'', ''black'']))))
      = Inr (Some ''grey'')
   \<and> sampleWOReplace (snd (assignColor exampleHash exampleNextInt ''dddd''
        (snd (assignColors exampleHash exampleNextInt [''a'', ''bb'', ''ccc'']
           (constructor [''red'', ''green'', ''blue''] [''grey'', ''black''])))))
      = 1
   \<and> availableColors (snd (assignColor exampleHash exampleNextInt ''dddd''
        (snd (assignColors exampleHash exampleNextInt [''a'', ''bb'', ''ccc'']
           (constructor [''red'', ''green'', ''blue''] [''grey'', ''black''])))))
      = [''black'', ''grey'']"
  using assignColor_recycles_fallback [OF exampleNextInt_in_range,
      of "[''grey'', ''black'']" "[''a'', ''bb'', ''ccc'']" "''dddd''" "[''red'', ''green'', ''blue'']"
         exampleHash]
    exampleNextInt_in_range
  by (simp add: exampleHash_def exampleNextInt_def)

text \<open>
  C3. Once a call assignColor(id) has returned a color, the table keeps that entry
  through every later run of calls on the allocator (assignColor, assignTeamColor and
  assignTeamPlayerColor, for any identities and teams, throwing or not), and a later
  call assignColor(id) returns that same color and changes nothing.
\<close>

theorem assignColor_memoized:
  assumes "assignColor simpleHash nextInt ident this = (Inr color, this1)"
  shows "assigned (performAll simpleHash nextInt toRgb colord teams tables calls this1) ident
           = Some color
    \<and> assignColor simpleHash nextInt ident
         (performAll simpleHash nextInt toRgb colord teams tables calls this1)
       = (Inr color, performAll simpleHash nextInt toRgb colord teams tables calls this1)"
proof -
  have "assigned this1 ident = Some color"
    using assms by (rule assignColor_returns_entry)
  then have "assigned (performAll simpleHash nextInt toRgb colord teams tables calls this1) ident
           = Some color"
    by (rule performAll_keeps_assigned)
  then show ?thesis by (simp add: assignColor_hit)
qed

theorem assignColor_memoized_witness:
  "fst (assignColor exampleHash exampleNextInt ''a''
          (constructor [exampleColor 1 1 1, exampleColor 2 2 2, exampleColor 3 3 3]
             [exampleColor 9 9 9, exampleColor 8 8 8]))
   = Inr (Some (exampleColor 2 2 2))
   \<and> fst (assignColor exampleHash exampleNextInt ''a''
        (performAll exampleHash exampleNextInt exampleToRgb exampleColord exampleTeams exampleTables
           [AssignColor ''bb'', AssignTeamColor ''Clan'', AssignTeamPlayerColor ''Red'' ''p1'',
            AssignColor ''ccc'', AssignColor ''a'']
           (snd (assignColor exampleHash exampleNextInt ''a''
              (constructor [exampleColor 1 1 1, exampleColor 2 2 2, exampleColor 3 3 3]
                 [exampleColor 9 9 9, exampleColor 8 8 8])))))
     = Inr (Some (exampleColor 2 2 2))"
proof -
  let ?s0 = "constructor [exampleColor 1 1 1, exampleColor 2 2 2, exampleColor 3 3 3]
                 [exampleColor 9 9 9, exampleColor 8 8 8]"
  have first: "fst (assignColor exampleHash exampleNextInt ''a'' ?s0) = Inr (Some (exampleColor 2 2 2))"
    by (simp add: assignColor_def constructor_def exampleHash_def exampleNextInt_def js_index_def swap_def Let_def)
  then have "assignColor exampleHash exampleNextInt ''a'' ?s0
      = (Inr (Some (exampleColor 2 2 2)), snd (assignColor exampleHash exampleNextInt ''a'' ?s0))"
    by (simp add: prod_eq_iff)
  from assignColor_memoized [OF this] first show ?thesis by simp
qed

text \<open>
  C8, as amended. For a team that is one of the ten \<^verbatim>\<open>ColoredTeams\<close> names,
  assignTeamColor leaves the allocator as it was, its outcome is the same for every
  hash, generator and allocator, and it is the first entry of the team's table with the
  red, green and blue channels rounded (a \<^verbatim>\<open>TypeError\<close> for an empty table). For any
  other team the list is the single color that assignColor(team) returns: the outcome
  is that color with its channels rounded, and the allocator is as assignColor(team)
  leaves it.
\<close>

theorem assignTeamColor_fixed_or_drawn:
  "(team \<in> {Blue teams, Red teams, Teal teams, Purple teams, Yellow teams, Orange teams,
            Green teams, Bot teams, Humans teams, Nations teams} \<longrightarrow>
      snd (assignTeamColor simpleHash nextInt toRgb colord teams tables team this) = this
      \<and> fst (assignTeamColor simpleHash nextInt toRgb colord teams tables team this)
          = fst (assignTeamColor simpleHash' nextInt' toRgb colord teams tables team this')
      \<and> (\<exists>teamColors.
            getTeamColorVariations simpleHash nextInt teams tables team this
              = (Inr (map Some teamColors), this)
            \<and> fst (assignTeamColor simpleHash nextInt toRgb colord teams tables team this)
              = (case teamColors of
                   [] \<Rightarrow> Inl TypeError
                 | first # _ \<Rightarrow>
                     Inr (colord ((toRgb first)
                            \<lparr> rgb_r := Math_round (rgb_r (toRgb first)),
                              rgb_g := Math_round (rgb_g (toRgb first)),
                              rgb_b := Math_round (rgb_b (toRgb first)) \<rparr>)))))
   \<and> (team \<notin> {Blue teams, Red teams, Teal teams, Purple teams, Yellow teams, Orange teams,
            Green teams, Bot teams, Humans teams, Nations teams} \<longrightarrow>
      assignTeamColor simpleHash nextInt toRgb colord teams tables team this
        = (case assignColor simpleHash nextInt team this of
             (Inl e, this1) \<Rightarrow> (Inl e, this1)
           | (Inr None, this1) \<Rightarrow> (Inl TypeError, this1)
           | (Inr (Some first), this1) \<Rightarrow>
               (Inr (colord ((toRgb first)
                            \<lparr> rgb_r := Math_round (rgb_r (toRgb first)),
                              rgb_g := Math_round (rgb_g (toRgb first)),
                              rgb_b := Math_round (rgb_b (toRgb first)) \<rparr>)), this1)))"
proof (intro conjI impI)
  assume fixed: "team \<in> {Blue teams, Red teams, Teal teams, Purple teams, Yellow teams,
      Orange teams, Green teams, Bot teams, Humans teams, Nations teams}"
  from getTeamColorVariations_fixed [OF this, of tables]
  obtain teamColors where tc: "\<And>simpleHash nextInt this.
      getTeamColorVariations simpleHash nextInt teams tables team (this :: 'a ColorAllocator)
        = (Inr (map Some teamColors), this)"
    by blast
  have val: "assignTeamColor h n toRgb colord teams tables team s =
      (case teamColors of
         [] \<Rightarrow> (Inl TypeError, s)
       | first # _ \<Rightarrow>
           (Inr (colord ((toRgb first)
                  \<lparr> rgb_r := Math_round (rgb_r (toRgb first)),
                    rgb_g := Math_round (rgb_g (toRgb first)),
                    rgb_b := Math_round (rgb_b (toRgb first)) \<rparr>)), s))"
    for h n and s :: "'a ColorAllocator"
    by (simp add: assignTeamColor_def tc js_index_def Let_def split: list.splits)
  show "snd (assignTeamColor simpleHash nextInt toRgb colord teams tables team this) = this"
    by (simp add: val split: list.splits)
  show "fst (assignTeamColor simpleHash nextInt toRgb colord teams tables team this)
          = fst (assignTeamColor simpleHash' nextInt' toRgb colord teams tables team this')"
    by (simp add: val split: list.splits)
  show "\<exists>teamColors.
            getTeamColorVariations simpleHash nextInt teams tables team this
              = (Inr (map Some teamColors), this)
            \<and> fst (assignTeamColor simpleHash nextInt toRgb colord teams tables team this)
              = (case teamColors of
                   [] \<Rightarrow> Inl TypeError
                 | first # _ \<Rightarrow>
                     Inr (colord ((toRgb first)
                            \<lparr> rgb_r := Math_round (rgb_r (toRgb first)),
                              rgb_g := Math_round (rgb_g (toRgb first)),
                              rgb_b := Math_round (rgb_b (toRgb first)) \<rparr>)))"
    by (rule exI [of _ teamColors]) (simp add: val tc split: list.splits)
next
  assume other: "team \<notin> {Blue teams, Red teams, Teal teams, Purple teams, Yellow teams,
      Orange teams, Green teams, Bot teams, Humans teams, Nations teams}"
  show "assignTeamColor simpleHash nextInt toRgb colord teams tables team this
        = (case assignColor simpleHash nextInt team this of
             (Inl e, this1) \<Rightarrow> (Inl e, this1)
           | (Inr None, this1) \<Rightarrow> (Inl TypeError, this1)
           | (Inr (Some first), this1) \<Rightarrow>
               (Inr (colord ((toRgb first)
                            \<lparr> rgb_r := Math_round (rgb_r (toRgb first)),
                              rgb_g := Math_round (rgb_g (toRgb first)),
                              rgb_b := Math_round (rgb_b (toRgb first)) \<rparr>)), this1))"
    by (simp add: assignTeamColor_def getTeamColorVariations_other [OF other] js_index_def Let_def
        split: prod.splits sum.splits option.splits)
qed

theorem assignTeamColor_fixed_or_drawn_witness:
  "''Blue'' \<in> {Blue exampleTeams, Red exampleTeams, Teal exampleTeams, Purple exampleTeams,
       Yellow exampleTeams, Orange exampleTeams, Green exampleTeams, Bot exampleTeams,
       Humans exampleTeams, Nations exampleTeams}
   \<and> assignTeamColor exampleHash exampleNextInt exampleToRgb exampleColord exampleTeams
        exampleTables ''Blue''
        (constructor [exampleColor 1 1 1, exampleColor (5 / 2) 2 2, exampleColor 3 3 3]
           [exampleColor 9 9 9])
      = (Inr (exampleColor 41 102 255),
         constructor [exampleColor 1 1 1, exampleColor (5 / 2) 2 2, exampleColor 3 3 3]
           [exampleColor 9 9 9])
   \<and> ''Clan'' \<notin> {Blue exampleTeams, Red exampleTeams, Teal exampleTeams, Purple exampleTeams,
       Yellow exampleTeams, Orange exampleTeams, Green exampleTeams, Bot exampleTeams,
       Humans exampleTeams, Nations exampleTeams}
   \<and> fst (assignTeamColor exampleHash exampleNextInt exampleToRgb exampleColord exampleTeams
        exampleTables ''Clan''
        (constructor [exampleColor 1 1 1, exampleColor (5 / 2) 2 2, exampleColor 3 3 3]
           [exampleColor 9 9 9]))
      = Inr (exampleColor 3 2 2)"
proof -
  let ?s0 = "constructor [exampleColor 1 1 1, exampleColor (5 / 2) 2 2, exampleColor 3 3 3]
           [exampleColor 9 9 9]"
  have fixed: "snd (assignTeamColor exampleHash exampleNextInt exampleToRgb exampleColord
        exampleTeams exampleTables ''Blue'' ?s0) = ?s0"
    and "\<exists>teamColors.
        getTeamColorVariations exampleHash exampleNextInt exampleTeams exampleTables ''Blue'' ?s0
          = (Inr (map Some teamColors), ?s0)
        \<and> fst (assignTeamColor exampleHash exampleNextInt exampleToRgb exampleColord
              exampleTeams exampleTables ''Blue'' ?s0)
          = (case teamColors of
               [] \<Rightarrow> Inl TypeError
             | first # _ \<Rightarrow>
                 Inr (exampleColord ((exampleToRgb first)
                        \<lparr> rgb_r := Math_round (rgb_r (exampleToRgb first)),
                          rgb_g := Math_round (rgb_g (exampleToRgb first)),
                          rgb_b := Math_round (rgb_b (exampleToRgb first)) \<rparr>)))"
    using assignTeamColor_fixed_or_drawn [of "''Blue''" exampleTeams exampleHash exampleNextInt
        exampleToRgb exampleColord exampleTables ?s0 exampleHash exampleNextInt ?s0]
      exampleTeams_Blue
    by blast+
  then obtain teamColors where
    tc: "getTeamColorVariations exampleHash exampleNextInt exampleTeams exampleTables ''Blue'' ?s0
          = (Inr (map Some teamColors), ?s0)"
    and val: "fst (assignTeamColor exampleHash exampleNextInt exampleToRgb exampleColord
              exampleTeams exampleTables ''Blue'' ?s0)
          = (case teamColors of
               [] \<Rightarrow> Inl TypeError
             | first # _ \<Rightarrow>
                 Inr (exampleColord ((exampleToRgb first)
                        \<lparr> rgb_r := Math_round (rgb_r (exampleToRgb first)),
                          rgb_g := Math_round (rgb_g (exampleToRgb first)),
                          rgb_b := Math_round (rgb_b (exampleToRgb first)) \<rparr>)))"
    by blast
  have "getTeamColorVariations exampleHash exampleNextInt exampleTeams exampleTables ''Blue'' ?s0
          = (Inr (map Some (blueTeamColors exampleTables)), ?s0)"
    by (simp add: getTeamColorVariations_def exampleTeams_def)
  with tc have "map Some teamColors = map Some (blueTeamColors exampleTables)" by simp
  then have "teamColors = blueTeamColors exampleTables"
    by (simp add: inj_map_eq_map)
  with val have "fst (assignTeamColor exampleHash exampleNextInt exampleToRgb exampleColord
              exampleTeams exampleTables ''Blue'' ?s0) = Inr (exampleColor 41 102 255)"
    by (simp add: exampleTables_def exampleToRgb_def exampleColord_def exampleColor_def
        Math_round_def)
  with fixed have blue: "assignTeamColor exampleHash exampleNextInt exampleToRgb exampleColord
        exampleTeams exampleTables ''Blue'' ?s0 = (Inr (exampleColor 41 102 255), ?s0)"
    by (simp add: prod_eq_iff)
  have clan: "fst (assignTeamColor exampleHash exampleNextInt exampleToRgb exampleColord exampleTeams
        exampleTables ''Clan'' ?s0) = Inr (exampleColor 3 2 2)"
    using assignTeamColor_fixed_or_drawn [of "''Clan''" exampleTeams exampleHash exampleNextInt
        exampleToRgb exampleColord exampleTables ?s0 exampleHash exampleNextInt ?s0]
      exampleTeams_Clan
    unfolding example_assignColor_Clan
    by (simp add: exampleToRgb_def exampleColord_def exampleColor_def Math_round_def)
  show ?thesis using blue clan exampleTeams_Blue exampleTeams_Clan by simp
qed

text \<open>
  C8 as stated fails for a team outside \<^verbatim>\<open>ColoredTeams\<close>: the call draws a color for
  the team, moves the cursor from 0 to 1, reorders the active palette and adds the team
  to the assignment table.
\<close>

theorem assignTeamColor_state_unchanged_counterexample:
  "snd (assignTeamColor exampleHash exampleNextInt exampleToRgb exampleColord exampleTeams
          exampleTables ''Clan''
          (constructor [exampleColor 1 1 1, exampleColor (5 / 2) 2 2, exampleColor 3 3 3]
             [exampleColor 9 9 9]))
   \<noteq> constructor [exampleColor 1 1 1, exampleColor (5 / 2) 2 2, exampleColor 3 3 3]
       [exampleColor 9 9 9]
   \<and> sampleWOReplace
       (snd (assignTeamColor exampleHash exampleNextInt exampleToRgb exampleColord exampleTeams
          exampleTables ''Clan''
          (constructor [exampleColor 1 1 1, exampleColor (5 / 2) 2 2, exampleColor 3 3 3]
             [exampleColor 9 9 9]))) = 1
   \<and> availableColors
       (snd (assignTeamColor exampleHash exampleNextInt exampleToRgb exampleColord exampleTeams
          exampleTables ''Clan''
          (constructor [exampleColor 1 1 1, exampleColor (5 / 2) 2 2, exampleColor 3 3 3]
             [exampleColor 9 9 9])))
      = [exampleColor 1 1 1, exampleColor 3 3 3, exampleColor (5 / 2) 2 2]
   \<and> assigned
       (snd (assignTeamColor exampleHash exampleNextInt exampleToRgb exampleColord exampleTeams
          exampleTables ''Clan''
          (constructor [exampleColor 1 1 1, exampleColor (5 / 2) 2 2, exampleColor 3 3 3]
             [exampleColor 9 9 9]))) ''Clan''
      = Some (Some (exampleColor (5 / 2) 2 2))"
proof -
  let ?s0 = "constructor [exampleColor 1 1 1, exampleColor (5 / 2) 2 2, exampleColor 3 3 3]
           [exampleColor 9 9 9]"
  have st: "snd (assignTeamColor exampleHash exampleNextInt exampleToRgb exampleColord exampleTeams
          exampleTables ''Clan'' ?s0)
      = \<lparr> availableColors = [exampleColor 1 1 1, exampleColor 3 3 3, exampleColor (5 / 2) 2 2],
        fallbackColors = [exampleColor 9 9 9],
        assigned = [''Clan'' \<mapsto> Some (exampleColor (5 / 2) 2 2)],
        teamPlayerColors = Map.empty,
        sampleWOReplace = 1 \<rparr>"
    by (simp add: assignTeamColor_state getTeamColorVariations_other [OF exampleTeams_Clan]
        example_assignColor_Clan)
  show ?thesis unfolding st by (simp add: constructor_def)
qed

text \<open>
  C9. On the first call for a playerId (no entry under it yet), with \<open>teamColors\<close> the
  non-empty list that getTeamColorVariations returns for the team,
  assignTeamPlayerColor returns the entry at index \<open>simpleHash playerId mod length
  teamColors\<close> and stores it under the playerId alone. After any later run of calls on
  the allocator, a call with the same playerId and any team returns that stored color
  and changes nothing.
\<close>

theorem assignTeamPlayerColor_keyed_by_playerId:
  assumes "teamPlayerColors this playerId = None"
    and "getTeamColorVariations simpleHash nextInt teams tables team this = (Inr teamColors, this1)"
    and "teamColors \<noteq> []"
  shows "assignTeamPlayerColor simpleHash nextInt teams tables team playerId this
      = (Inr (teamColors ! (simpleHash playerId mod length teamColors)),
         this1\<lparr> teamPlayerColors :=
                 (teamPlayerColors this1)
                   (playerId \<mapsto> teamColors ! (simpleHash playerId mod length teamColors)) \<rparr>)
    \<and> assignTeamPlayerColor simpleHash nextInt teams tables team' playerId
         (performAll simpleHash nextInt toRgb colord teams tables calls
            (snd (assignTeamPlayerColor simpleHash nextInt teams tables team playerId this)))
      = (Inr (teamColors ! (simpleHash playerId mod length teamColors)),
         performAll simpleHash nextInt toRgb colord teams tables calls
            (snd (assignTeamPlayerColor simpleHash nextInt teams tables team playerId this)))"
proof -
  let ?color = "teamColors ! (simpleHash playerId mod length teamColors)"
  let ?this2 = "this1\<lparr> teamPlayerColors := (teamPlayerColors this1)(playerId \<mapsto> ?color) \<rparr>"
  have idx: "simpleHash playerId mod length teamColors < length teamColors"
    using assms(3) by simp
  have first: "assignTeamPlayerColor simpleHash nextInt teams tables team playerId this
      = (Inr ?color, ?this2)"
    using assms idx by (simp add: assignTeamPlayerColor_def js_index_def Let_def)
  have "teamPlayerColors ?this2 playerId = Some ?color" by simp
  then have "teamPlayerColors (performAll simpleHash nextInt toRgb colord teams tables calls ?this2)
      playerId = Some ?color"
    by (rule performAll_keeps_teamPlayerColors)
  then have "assignTeamPlayerColor simpleHash nextInt teams tables team' playerId
         (performAll simpleHash nextInt toRgb colord teams tables calls ?this2)
      = (Inr ?color, performAll simpleHash nextInt toRgb colord teams tables calls ?this2)"
    by (rule assignTeamPlayerColor_hit)
  then show ?thesis using first by simp
qed

theorem assignTeamPlayerColor_keyed_by_playerId_witness:
  "fst (assignTeamPlayerColor exampleHash exampleNextInt exampleTeams exampleTables ''Red'' ''p1''
          (constructor [exampleColor 1 1 1] [exampleColor 9 9 9]))
     = Inr (Some (exampleColor 150 0 0))
   \<and> fst (assignTeamPlayerColor exampleHash exampleNextInt exampleTeams exampleTables ''Blue'' ''p1''
       (performAll exampleHash exampleNextInt exampleToRgb exampleColord exampleTeams exampleTables
          [AssignTeamPlayerColor ''Green'' ''p22'', AssignColor ''a'', AssignTeamColor ''Clan'']
          (snd (assignTeamPlayerColor exampleHash exampleNextInt exampleTeams exampleTables
                  ''Red'' ''p1'' (constructor [exampleColor 1 1 1] [exampleColor 9 9 9])))))
     = Inr (Some (exampleColor 150 0 0))"
proof -
  let ?s0 = "constructor [exampleColor 1 1 1] [exampleColor 9 9 9]"
  have new: "teamPlayerColors ?s0 ''p1'' = None" by (simp add: constructor_def)
  have tc: "getTeamColorVariations exampleHash exampleNextInt exampleTeams exampleTables ''Red'' ?s0
      = (Inr (map Some (redTeamColors exampleTables)), ?s0)"
    by (simp add: getTeamColorVariations_def exampleTeams_def)
  have ne: "map Some (redTeamColors exampleTables) \<noteq> []" by (simp add: exampleTables_def)
  have idx: "map Some (redTeamColors exampleTables)
        ! (exampleHash ''p1'' mod length (map Some (redTeamColors exampleTables)))
      = Some (exampleColor 150 0 0)"
    by (simp add: exampleTables_def exampleHash_def)
  note inst = assignTeamPlayerColor_keyed_by_playerId [OF new tc ne, unfolded idx,
      of "''Blue''" exampleToRgb exampleColord
         "[AssignTeamPlayerColor ''Green'' ''p22'', AssignColor ''a'', AssignTeamColor ''Clan'']"]
  have first: "assignTeamPlayerColor exampleHash exampleNextInt exampleTeams exampleTables
      ''Red'' ''p1'' ?s0
      = (Inr (Some (exampleColor 150 0 0)),
         ?s0\<lparr> teamPlayerColors :=
               (teamPlayerColors ?s0)(''p1'' \<mapsto> Some (exampleColor 150 0 0)) \<rparr>)"
    using inst by (rule conjunct1)
  have later: "assignTeamPlayerColor exampleHash exampleNextInt exampleTeams exampleTables
      ''Blue'' ''p1''
       (performAll exampleHash exampleNextInt exampleToRgb exampleColord exampleTeams exampleTables
          [AssignTeamPlayerColor ''Green'' ''p22'', AssignColor ''a'', AssignTeamColor ''Clan'']
          (snd (assignTeamPlayerColor exampleHash exampleNextInt exampleTeams exampleTables
                  ''Red'' ''p1'' ?s0)))
      = (Inr (Some (exampleColor 150 0 0)),
         performAll exampleHash exampleNextInt exampleToRgb exampleColord exampleTeams exampleTables
          [AssignTeamPlayerColor ''Green'' ''p22'', AssignColor ''a'', AssignTeamColor ''Clan'']
          (snd (assignTeamPlayerColor exampleHash exampleNextInt exampleTeams exampleTables
                  ''Red'' ''p1'' ?s0)))"
    using inst by (rule conjunct2)
  show ?thesis unfolding later unfolding first by simp
qed

section \<open>Properties of selectDistinctColorIndex\<close>

text \<open>
  C5. For non-empty lists of candidates and of assigned colors, and a distance that is
  never negative, selectDistinctColorIndex returns an index \<open>i\<close> of the candidates
  list at which the least distance to the assigned colors is greatest, and the least
  such index: every candidate's least distance is at most that of candidate \<open>i\<close>, and
  every earlier candidate's is smaller. When every candidate's least distance is zero
  the index is 0.
\<close>

theorem selectDistinctColorIndex_first_farthest:
  assumes "availableColors' \<noteq> []"
    and "assignedColors \<noteq> []"
    and "\<forall>x y. 0 \<le> deltaE2000 x y"
  shows "\<exists>i. selectDistinctColorIndex toColor deltaE2000 availableColors' assignedColors
               = Inr (Some i)
    \<and> i < length availableColors'
    \<and> (\<forall>j < length availableColors'.
          closestDistance toColor deltaE2000 assignedColors (availableColors' ! j)
            \<le> closestDistance toColor deltaE2000 assignedColors (availableColors' ! i))
    \<and> (\<forall>j < i.
          closestDistance toColor deltaE2000 assignedColors (availableColors' ! j)
            < closestDistance toColor deltaE2000 assignedColors (availableColors' ! i))
    \<and> ((\<forall>j < length availableColors'.
           closestDistance toColor deltaE2000 assignedColors (availableColors' ! j) = 0)
         \<longrightarrow> i = 0)"
proof -
  let ?f = "\<lambda>j. closestDistance toColor deltaE2000 assignedColors (availableColors' ! j)"
  let ?labs = "map toColor assignedColors"
  let ?res = "selectLoop toColor deltaE2000 availableColors' ?labs 0 (Num 0) 0"
  have sel: "selectDistinctColorIndex toColor deltaE2000 availableColors' assignedColors
      = Inr (Some ?res)"
    using assms(2) by (simp add: selectDistinctColorIndex_def Let_def)
  have m: "\<forall>j < length availableColors'.
      minDeltaE deltaE2000 (toColor (availableColors' ! j)) ?labs = Num (?f j)"
    using assms(2) by (simp add: minDeltaE_closestDistance)
  have nonneg: "0 \<le> ?f j" for j
    using assms(2,3) unfolding closestDistance_def by (simp add: Min_ge_iff)
  have len: "0 < length availableColors'" using assms(1) by simp
  have goal: "?res < length availableColors'
    \<and> (\<forall>j < length availableColors'. ?f j \<le> ?f ?res)
    \<and> (\<forall>j < ?res. ?f j < ?f ?res)
    \<and> ((\<forall>j < length availableColors'. ?f j = 0) \<longrightarrow> ?res = 0)"
    using selectLoop_result [OF m, of 0 0 0]
  proof (elim disjE conjE)
    assume none: "?res = 0" "\<forall>j. 0 \<le> j \<and> j < length availableColors' \<longrightarrow> ?f j \<le> 0"
    have "?f j = 0" if "j < length availableColors'" for j
      using none(2) that nonneg [of j] by (simp add: order_antisym)
    then show ?thesis using none(1) len by simp
  next
    assume some: "?res < length availableColors'" "0 < ?f ?res"
        "\<forall>j. 0 \<le> j \<and> j < length availableColors' \<longrightarrow> ?f j \<le> ?f ?res"
        "\<forall>j. 0 \<le> j \<and> j < ?res \<longrightarrow> ?f j < ?f ?res"
    have "(\<forall>j < length availableColors'. ?f j = 0) \<longrightarrow> ?res = 0"
    proof
      assume "\<forall>j < length availableColors'. ?f j = 0"
      then have "?res < length availableColors' \<longrightarrow> ?f ?res = 0" by (rule spec)
      with some(1) have "?f ?res = 0" by (rule rev_mp)
      with some(2) show "?res = 0" by simp
    qed
    moreover have "\<forall>j < length availableColors'. ?f j \<le> ?f ?res"
      using some(3) by simp
    moreover have "\<forall>j < ?res. ?f j < ?f ?res"
      using some(4) by simp
    ultimately show ?thesis using some(1) by (intro conjI)
  qed
  show ?thesis
    by (rule exI [of _ ?res]) (use sel goal in simp)
qed

theorem selectDistinctColorIndex_first_farthest_witness:
  "[95, 0, 0 :: real] \<noteq> [] \<and> [100, 90 :: real] \<noteq> []
   \<and> (\<forall>x y. 0 \<le> exampleDeltaE x y)
   \<and> selectDistinctColorIndex exampleToColor exampleDeltaE [95, 0, 0] [100, 90] = Inr (Some 1)
   \<and> selectDistinctColorIndex exampleToColor exampleDeltaE [100, 100] [100] = Inr (Some 0)
   \<and> (\<exists>i. selectDistinctColorIndex exampleToColor exampleDeltaE [95, 0, 0] [100, 90]
               = Inr (Some i)
        \<and> i < length [95, 0, 0 :: real]
        \<and> (\<forall>j < length [95, 0, 0 :: real].
              closestDistance exampleToColor exampleDeltaE [100, 90] ([95, 0, 0] ! j)
                \<le> closestDistance exampleToColor exampleDeltaE [100, 90] ([95, 0, 0] ! i))
        \<and> (\<forall>j < i.
              closestDistance exampleToColor exampleDeltaE [100, 90] ([95, 0, 0] ! j)
                < closestDistance exampleToColor exampleDeltaE [100, 90] ([95, 0, 0] ! i))
        \<and> ((\<forall>j < length [95, 0, 0 :: real].
               closestDistance exampleToColor exampleDeltaE [100, 90] ([95, 0, 0] ! j) = 0)
             \<longrightarrow> i = 0))"
proof -
  have nonneg: "\<forall>x y. 0 \<le> exampleDeltaE x y" by (simp add: exampleDeltaE_def)
  have ne: "[95, 0, 0 :: real] \<noteq> []" "[100, 90 :: real] \<noteq> []" by simp_all
  note inst = selectDistinctColorIndex_first_farthest [OF ne nonneg, of exampleToColor]
  show ?thesis
    by (intro conjI)
      (rule ne nonneg selectDistinctColorIndex_example selectDistinctColorIndex_example_zero
         inst)+
qed

text \<open>
  C6. selectDistinctColorIndex throws if and only if the assigned list is empty, whatever
  the candidates are, and what it throws is the "No assigned colors" error; with a
  non-empty assigned list it returns.
\<close>

theorem selectDistinctColorIndex_throws_iff_no_assigned:
  "((\<exists>e. selectDistinctColorIndex toColor deltaE2000 availableColors' assignedColors = Inl e)
      = (assignedColors = []))
   \<and> ((selectDistinctColorIndex toColor deltaE2000 availableColors' assignedColors
         = Inl NoAssignedColors)
      = (assignedColors = []))
   \<and> ((\<exists>r. selectDistinctColorIndex toColor deltaE2000 availableColors' assignedColors = Inr r)
      = (assignedColors \<noteq> []))"
  by (simp add: selectDistinctColorIndex_def Let_def)

theorem selectDistinctColorIndex_throws_iff_no_assigned_witness:
  "selectDistinctColorIndex exampleToColor exampleDeltaE [95, 0] [] = Inl NoAssignedColors
   \<and> (\<exists>r. selectDistinctColorIndex exampleToColor exampleDeltaE [95, 0] [100] = Inr r)"
  using selectDistinctColorIndex_throws_iff_no_assigned
      [of exampleToColor exampleDeltaE "[95, 0]" "[]"]
    selectDistinctColorIndex_throws_iff_no_assigned
      [of exampleToColor exampleDeltaE "[95, 0]" "[100]"]
  by simp

text \<open>
  C10. The declared result type admits \<^verbatim>\<open>null\<close>, but no call returns it: a call that
  returns, returns a number. With no candidates and some assigned color the number is
  0, although reading index 0 of the empty candidates list gives \<^verbatim>\<open>undefined\<close>.
\<close>

theorem selectDistinctColorIndex_never_null:
  fixes toColor :: "'c \<Rightarrow> 'lab"
  shows "selectDistinctColorIndex toColor deltaE2000 availableColors' assignedColors \<noteq> Inr None
   \<and> selectDistinctColorIndex toColor deltaE2000 [] (a # as) = Inr (Some 0)
   \<and> js_index ([] :: 'c list) 0 = None"
  by (simp add: selectDistinctColorIndex_def js_index_def selectLoop.simps Let_def)

theorem selectDistinctColorIndex_never_null_witness:
  "selectDistinctColorIndex exampleToColor exampleDeltaE [] [100] = Inr (Some 0)
   \<and> selectDistinctColorIndex exampleToColor exampleDeltaE [95, 0, 0] [100, 90] \<noteq> Inr None"
proof -
  note empty = selectDistinctColorIndex_never_null
      [of exampleToColor exampleDeltaE "[]" "[100]" 100 "[]"]
  note full = selectDistinctColorIndex_never_null
      [of exampleToColor exampleDeltaE "[95, 0, 0]" "[100, 90]" 100 "[]"]
  show ?thesis
    by (intro conjI) (rule empty [THEN conjunct2, THEN conjunct1] full [THEN conjunct1])+
qed

section \<open>Two allocators\<close>

text \<open>
  C4. Two allocators are constructed, one after the other, from palette arrays of one
  store that hold the same colors (the same two arrays, or others with equal contents),
  and assignColor is called on them in any interleaving. The outcomes of the calls on
  each allocator are those of the same calls on an allocator that is alone, constructed
  from the contents of the palettes. So when both allocators receive the same sequence
  of identities, the outcomes of their calls agree one by one: the color returned for
  an identity after a given history is the same on both.
\<close>

theorem assignColor_two_instances_agree:
  assumes "colorsA < length store" and "fallbackA < length store"
    and "colorsB < length store" and "fallbackB < length store"
    and "store ! colorsA = store ! colorsB"
    and "store ! fallbackA = store ! fallbackB"
    and "constructor_in store colorsA fallbackA = (store1, a)"
    and "constructor_in store1 colorsB fallbackB = (store2, b)"
    and "of_instance First calls = of_instance Second calls"
  shows "of_instance First (fst (assignColors_in simpleHash nextInt calls store2 a b))
           = of_instance Second (fst (assignColors_in simpleHash nextInt calls store2 a b))
    \<and> of_instance First (fst (assignColors_in simpleHash nextInt calls store2 a b))
           = fst (assignColors simpleHash nextInt (of_instance First calls)
                    (constructor (store ! colorsA) (store ! fallbackA)))"
proof -
  note init = constructor_in_twice [OF assms(1-4) assms(7,8)]
  from init have ap: "apart store2 a b" by blast
  from init have ca: "contents_of store2 a = constructor (store ! colorsA) (store ! fallbackA)"
    by blast
  from init have cb: "contents_of store2 b = constructor (store ! colorsA) (store ! fallbackA)"
    using assms(5,6) by simp
  note proj = assignColors_in_projects [OF ap, of simpleHash nextInt calls]
  show ?thesis using proj assms(9) by (simp add: ca cb)
qed

theorem assignColor_two_instances_agree_witness:
  "of_instance First exampleCalls = of_instance Second exampleCalls
   \<and> of_instance First
        (fst (assignColors_in exampleHash exampleNextInt exampleCalls
           (fst (constructor_in (fst (constructor_in exampleStore 0 1)) 0 1))
           (snd (constructor_in exampleStore 0 1))
           (snd (constructor_in (fst (constructor_in exampleStore 0 1)) 0 1))))
      = [Inr (Some ''green''), Inr (Some ''red''), Inr (Some ''blue''), Inr (Some ''grey'')]
   \<and> of_instance Second
        (fst (assignColors_in exampleHash exampleNextInt exampleCalls
           (fst (constructor_in (fst (constructor_in exampleStore 0 1)) 0 1))
           (snd (constructor_in exampleStore 0 1))
           (snd (constructor_in (fst (constructor_in exampleStore 0 1)) 0 1))))
      = [Inr (Some ''green''), Inr (Some ''red''), Inr (Some ''blue''), Inr (Some ''grey'')]"
proof -
  have len: "0 < length exampleStore" "1 < length exampleStore"
    by (simp_all add: exampleStore_def)
  have same: "of_instance First exampleCalls = of_instance Second exampleCalls"
    and ids: "of_instance First exampleCalls = [''a'', ''bb'', ''ccc'', ''dddd'']"
    by (simp_all add: exampleCalls_def of_instance_def)
  have pal: "exampleStore ! 0 = [''red'', ''green'', ''blue'']"
    "exampleStore ! 1 = [''grey'', ''black'']"
    by (simp_all add: exampleStore_def)
  note inst = assignColor_two_instances_agree [OF len len refl refl prod.collapse [symmetric]
      prod.collapse [symmetric] same,
      of exampleHash exampleNextInt, unfolded ids pal assignColors_example]
  have agree: "of_instance First
        (fst (assignColors_in exampleHash exampleNextInt exampleCalls
           (fst (constructor_in (fst (constructor_in exampleStore 0 1)) 0 1))
           (snd (constructor_in exampleStore 0 1))
           (snd (constructor_in (fst (constructor_in exampleStore 0 1)) 0 1))))
      = of_instance Second
        (fst (assignColors_in exampleHash exampleNextInt exampleCalls
           (fst (constructor_in (fst (constructor_in exampleStore 0 1)) 0 1))
           (snd (constructor_in exampleStore 0 1))
           (snd (constructor_in (fst (constructor_in exampleStore 0 1)) 0 1))))"
    and first: "of_instance First
        (fst (assignColors_in exampleHash exampleNextInt exampleCalls
           (fst (constructor_in (fst (constructor_in exampleStore 0 1)) 0 1))
           (snd (constructor_in exampleStore 0 1))
           (snd (constructor_in (fst (constructor_in exampleStore 0 1)) 0 1))))
      = [Inr (Some ''green''), Inr (Some ''red''), Inr (Some ''blue''), Inr (Some ''grey'')]"
    using inst by (rule conjunct1 conjunct2)+
  show ?thesis
    by (intro conjI) (rule same first trans [OF agree [symmetric] first])+
qed

end
